theory Spec2Isabelle
  imports Main "HOL-Library.Word"
begin

section \<open>The OPC UA client of \<open>client.go\<close>\<close>

text \<open>
  The embedding follows \<open>client.go\<close> function by function. The client is a record,
  every method takes the state (the client and the trace of its calls into the packages
  \<open>uacp\<close>, \<open>uasc\<close>, \<open>crypto/rand\<close>) and returns an outcome: the Go return value
  with the new state, or a panic with the state at the moment of the panic.

  The packages \<open>uacp\<close>, \<open>uasc\<close> and \<open>ua\<close> are not among the sources. What they answer is
  a parameter of the model (the record \<open>env\<close>): each answer is an arbitrary function of
  the trace so far, so every behaviour of the server and of the network is covered.
\<close>

subsection \<open>Values of package \<open>ua\<close>\<close>

type_synonym byte = "8 word"

text \<open>
  Modelled from the spec: the type \<open>ua.NodeID\<close> (package \<open>ua\<close> is not among the sources).
  The glossary gives a node identifier the variants numeric, string, guid and byte-string,
  each with a namespace.
\<close>

datatype node_id =
    NumericNodeID nat nat
  | StringNodeID nat string
  | GuidNodeID nat "byte list"
  | ByteStringNodeID nat "byte list"

text \<open>
  Modelled from the spec: the type \<open>ua.SignatureData\<close> (package \<open>ua\<close> is not among the
  sources), the signature placeholder of a session. The source only builds its zero value
  \<open>&ua.SignatureData{}\<close>, the record of empty fields.
\<close>

record signature_data =
  Algorithm :: string
  Signature :: "byte list"

definition empty_SignatureData :: signature_data where
  "empty_SignatureData = \<lparr>Algorithm = [], Signature = []\<rparr>"

text \<open>
  Modelled from the spec: the user identity tokens of the session configuration (the variant
  Anonymous, UserName, X509, IssuedToken) and their wrapping as an extension object by
  \<open>ua.NewExtensionObject\<close> (package \<open>ua\<close> is not among the sources).
\<close>

datatype identity_token =
    AnonymousIdentityToken string
  | UserNameIdentityToken string
  | X509IdentityToken "byte list"
  | IssuedIdentityToken "byte list"

datatype extension_object = NewExtensionObject identity_token

text \<open>
  Modelled from the spec: the types \<open>uasc.SessionConfig\<close> and \<open>uasc.Config\<close> (package
  \<open>uasc\<close> is not among the sources), with the fields \<open>client.go\<close> reads
  (\<open>cfg.ClientDescription\<close>, \<open>cfg.LocaleIDs\<close>, \<open>cfg.UserIdentityToken\<close>,
  \<open>cfg.UserTokenSignature\<close>, \<open>c.Config.Certificate\<close>) and the requested lifetime.
\<close>

record session_config =
  ClientDescription :: string
  LocaleIDs :: "string list"
  UserIdentityToken :: identity_token
  UserTokenSignature :: "signature_data option"

record config =
  Certificate :: "byte list"
  RequestedLifetime :: nat

text \<open>
  Modelled from the spec: the type \<open>ua.CreateSessionResponse\<close> (package \<open>ua\<close> is not among
  the sources), with the session identifier, the authentication token and the server nonce.
  The source reads \<open>resp.AuthenticationToken\<close>, a \<open>*ua.NodeID\<close>, so it may be nil.
\<close>

record create_session_response =
  SessionID :: "node_id option"
  AuthenticationToken :: "node_id option"
  ServerNonce :: "byte list"

text \<open>
  The service requests \<open>client.go\<close> builds. The arguments are the fields the source sets,
  in the order of the struct literal:
  \<^item> \<open>CreateSessionRequest\<close>: ClientDescription, EndpointURL, SessionName, ClientNonce,
    ClientCertificate;
  \<^item> \<open>ActivateSessionRequest\<close>: ClientSignature, LocaleIDs, UserIdentityToken,
    UserTokenSignature (ClientSoftwareCertificates is always nil);
  \<^item> \<open>CloseSessionRequest\<close>: DeleteSubscriptions;
  \<^item> \<open>GetEndpointsRequest\<close>: EndpointURL;
  \<^item> \<open>OtherRequest\<close>: any other request value a caller hands to \<open>Send\<close>.
\<close>

datatype request =
    CreateSessionRequest string string string "byte list" "byte list"
  | ActivateSessionRequest "signature_data option" "string list" extension_object
      "signature_data option"
  | CloseSessionRequest bool
  | GetEndpointsRequest string
  | OtherRequest string

text \<open>
  The value \<open>v interface{}\<close> a handler receives. The handlers of \<open>client.go\<close> only ask
  for its dynamic type; \<open>OtherResponse\<close> carries the type name of any other value.
\<close>

datatype response =
    CreateSessionResponse create_session_response
  | ActivateSessionResponse
  | CloseSessionResponse
  | GetEndpointsResponse "string list"
  | OtherResponse string

text \<open>What \<open>%T\<close> prints for the value.\<close>

fun type_name :: "response \<Rightarrow> string" where
  "type_name (CreateSessionResponse _) = ''*ua.CreateSessionResponse''"
| "type_name ActivateSessionResponse = ''*ua.ActivateSessionResponse''"
| "type_name CloseSessionResponse = ''*ua.CloseSessionResponse''"
| "type_name (GetEndpointsResponse _) = ''*ua.GetEndpointsResponse''"
| "type_name (OtherResponse n) = n"

subsection \<open>Errors, panics, outcomes\<close>

text \<open>
  \<open>Errorf\<close> is an error made by \<open>fmt.Errorf\<close> in \<open>client.go\<close>, with its message;
  \<open>ForeignError\<close> is an error value that comes from another package.
\<close>

datatype error = Errorf string | ForeignError string

datatype panic =
    NilPointerDereference
  | InterfaceConversion
  | StoreOfNilValue

datatype ('a, 's) outcome = Return 'a 's | Panic panic 's

fun state_of :: "('a, 's) outcome \<Rightarrow> 's" where
  "state_of (Return _ s) = s"
| "state_of (Panic _ s) = s"

fun panicked :: "('a, 's) outcome \<Rightarrow> bool" where
  "panicked (Return _ _) = False"
| "panicked (Panic _ _) = True"

subsection \<open>The session and the atomic holder\<close>

text \<open>
  \<open>type Session struct\<close>. Its four fields are pointers, nil in the zero value
  \<open>Session{}\<close>. A \<open>*Session\<close> is a \<open>session option\<close>, \<open>None\<close> the nil pointer; sessions
  are never mutated after their construction, so a pointer is modelled by the value it
  points to.
\<close>

record session =
  cfg :: "session_config option"
  resp :: "create_session_response option"
  mySignature :: "signature_data option"
  signatureToSend :: "signature_data option"

text \<open>
  \<open>sync/atomic.Value\<close>, as \<open>client.go\<close> uses it. A value of type \<open>interface{}\<close> handed to
  \<open>Store\<close> is the nil interface or a \<open>*Session\<close> (which may be the typed nil pointer).
  \<open>Store\<close> panics on the nil interface; \<open>Load\<close> gives the nil interface when nothing was
  stored; the type assertion \<open>.(*Session)\<close> panics on the nil interface.
\<close>

datatype interface_value = NilInterface | SessionPtr "session option"

datatype atomic_Value = NothingStored | Stored "session option"

fun Value_Store :: "interface_value \<Rightarrow> atomic_Value \<Rightarrow> panic + atomic_Value" where
  "Value_Store NilInterface v = Inl StoreOfNilValue"
| "Value_Store (SessionPtr p) v = Inr (Stored p)"

fun Value_Load :: "atomic_Value \<Rightarrow> interface_value" where
  "Value_Load NothingStored = NilInterface"
| "Value_Load (Stored p) = SessionPtr p"

fun assert_Session :: "interface_value \<Rightarrow> panic + session option" where
  "assert_Session NilInterface = Inl InterfaceConversion"
| "assert_Session (SessionPtr p) = Inr p"

subsection \<open>The client and its environment\<close>

type_synonym conn = nat

text \<open>A \<open>*uasc.SecureChannel\<close>, as \<open>uasc.NewSecureChannel(c.EndpointURL, conn, cfg)\<close> makes
  it: the model keeps the three arguments.\<close>

datatype secure_channel = SecureChannel string conn config

text \<open>\<open>type Client struct\<close>; \<open>once\<close> is true when \<open>sync.Once\<close> has run.\<close>

record client =
  EndpointURL :: string
  Config :: "config option"
  SessionConfig :: "session_config option"
  sechan :: "secure_channel option"
  session_holder :: atomic_Value
  once :: bool

text \<open>The calls that leave \<open>client.go\<close>, in the order they happen.\<close>

datatype event =
    EvDial string
  | EvNewSecureChannel string conn config
  | EvOpen
  | EvConnClose conn
  | EvSend request "node_id option"
  | EvChannelClose
  | EvRandRead nat

text \<open>
  The state of a run: the client, the trace, and a history variable that no method reads,
  the sessions \<open>CreateSession\<close> has returned so far.
\<close>

record state =
  the_client :: client
  trace :: "event list"
  returned :: "session list"

text \<open>The messages handed to the secure channel, with their authentication tokens.\<close>

fun sent :: "event list \<Rightarrow> (request \<times> node_id option) list" where
  "sent [] = []"
| "sent (EvSend r t # es) = (r, t) # sent es"
| "sent (_ # es) = sent es"

datatype send_result = SendError error | Reply response

text \<open>
  The environment: what each outside call answers, given the trace up to and including
  that call, and the two package-level defaults built by \<open>uasc\<close> constructors.
\<close>

record env =
  uacp_Dial :: "event list \<Rightarrow> error + conn"
  uasc_NewSecureChannel :: "event list \<Rightarrow> error option"
  sechan_Open :: "event list \<Rightarrow> error option"
  sechan_answer :: "event list \<Rightarrow> send_result"
  sechan_Close :: "event list \<Rightarrow> error option"
  rand_Read :: "event list \<Rightarrow> error + byte list"
  time_Now_UnixNano :: "event list \<Rightarrow> int"
  DefaultClientConfig :: config
  DefaultSessionConfig :: session_config

subsection \<open>\<open>fmt.Sprintf("gopcua-%d", n)\<close>\<close>

definition digit :: "nat \<Rightarrow> char" where
  "digit d = char_of (48 + d)"

function decimal :: "nat \<Rightarrow> string" where
  "decimal n = (if n < 10 then [digit n] else decimal (n div 10) @ [digit (n mod 10)])"
  by pat_completeness auto
termination
  by (relation "measure id") auto

declare decimal.simps [simp del]

definition Sprintf_d :: "int \<Rightarrow> string" where
  "Sprintf_d i = (if i < 0 then CHR ''-'' # decimal (nat (- i)) else decimal (nat i))"

subsection \<open>The methods of the client\<close>

text \<open>
  A handler \<open>func(interface{}) error\<close> is a closure: it works on the variables it captured
  (\<open>'l\<close>) and on the state.
\<close>

type_synonym 'l handler = "response \<Rightarrow> 'l \<times> state \<Rightarrow> (error option, 'l \<times> state) outcome"

text \<open>
  Modelled from the spec: \<open>(*uasc.SecureChannel).Send(req, authToken, h)\<close> (package \<open>uasc\<close>
  is not among the sources). The request is handed to the channel with the token; a failure
  is surfaced to the caller as an error, otherwise the handler is invoked with the decoded
  response. \<open>client.go\<close> reads the variables its handlers set right after the call, so the
  handler has run when \<open>Send\<close> returns, and \<open>Send\<close> returns the handler's error. What the
  channel answers is the environment's choice. The receiver is \<open>c.sechan\<close>; on a nil
  receiver the call is a nil pointer dereference.
\<close>

definition sechan_Send ::
  "env \<Rightarrow> secure_channel option \<Rightarrow> request \<Rightarrow> node_id option \<Rightarrow> 'l handler \<Rightarrow>
   'l \<times> state \<Rightarrow> (error option, 'l \<times> state) outcome" where
  "sechan_Send e ch req authToken h ls =
     (case ch of
        None \<Rightarrow> Panic NilPointerDereference ls
      | Some _ \<Rightarrow>
          (let st = (snd ls)\<lparr>trace := trace (snd ls) @ [EvSend req authToken]\<rparr> in
           case sechan_answer e (trace st) of
             SendError err \<Rightarrow> Return (Some err) (fst ls, st)
           | Reply v \<Rightarrow> h v (fst ls, st)))"

text \<open>\<open>func (c *Client) Session() *Session\<close>\<close>

definition Session :: "state \<Rightarrow> (session option, state) outcome" where
  "Session st =
     (case assert_Session (Value_Load (session_holder (the_client st))) of
        Inl p \<Rightarrow> Panic p st
      | Inr s \<Rightarrow> Return s st)"

text \<open>\<open>c.session.Store(x)\<close>\<close>

definition session_Store :: "interface_value \<Rightarrow> state \<Rightarrow> (unit, state) outcome" where
  "session_Store x st =
     (case Value_Store x (session_holder (the_client st)) of
        Inl p \<Rightarrow> Panic p st
      | Inr v \<Rightarrow> Return () (st\<lparr>the_client := (the_client st)\<lparr>session_holder := v\<rparr>\<rparr>))"

text \<open>\<open>func (c *Client) Send(req interface{}, h func(interface{}) error) error\<close>\<close>

definition Send :: "env \<Rightarrow> request \<Rightarrow> 'l handler \<Rightarrow> 'l \<times> state \<Rightarrow>
    (error option, 'l \<times> state) outcome" where
  "Send e req h ls =
     (case Session (snd ls) of
        Panic p st \<Rightarrow> Panic p (fst ls, st)
      | Return None st \<Rightarrow> sechan_Send e (sechan (the_client st)) req None h (fst ls, st)
      | Return (Some s) st \<Rightarrow>
          (case resp s of
             None \<Rightarrow> Panic NilPointerDereference (fst ls, st)
           | Some r \<Rightarrow>
               sechan_Send e (sechan (the_client st)) req (AuthenticationToken r) h
                 (fst ls, st)))"

text \<open>\<open>func (c *Client) closeSession(s *Session) error\<close>\<close>

definition closeSession_handler :: "unit handler" where
  "closeSession_handler v ls =
     (case v of
        CloseSessionResponse \<Rightarrow> Return None ls
      | _ \<Rightarrow> Return (Some (Errorf (''invalid response. Got '' @ type_name v @
                '', want ActivateSessionResponse''))) ls)"

definition closeSession :: "env \<Rightarrow> session option \<Rightarrow> state \<Rightarrow> (error option, state) outcome" where
  "closeSession e s st =
     (case s of
        None \<Rightarrow> Return None st
      | Some _ \<Rightarrow>
          (case Send e (CloseSessionRequest True) closeSession_handler ((), st) of
             Panic p ls \<Rightarrow> Panic p (snd ls)
           | Return err ls \<Rightarrow> Return err (snd ls)))"

text \<open>\<open>func (c *Client) CloseSession() error\<close>\<close>

definition CloseSession :: "env \<Rightarrow> state \<Rightarrow> (error option, state) outcome" where
  "CloseSession e st =
     (case Session st of
        Panic p st0 \<Rightarrow> Panic p st0
      | Return s st0 \<Rightarrow>
          (case closeSession e s st0 of
             Panic p st1 \<Rightarrow> Panic p st1
           | Return (Some err) st1 \<Rightarrow> Return (Some err) st1
           | Return None st1 \<Rightarrow>
               (case session_Store (SessionPtr None) st1 of
                  Panic p st2 \<Rightarrow> Panic p st2
                | Return _ st2 \<Rightarrow> Return None st2)))"

text \<open>\<open>func (c *Client) DetachSession() (*Session, error)\<close>\<close>

definition DetachSession :: "state \<Rightarrow> (session option \<times> error option, state) outcome" where
  "DetachSession st =
     (case Session st of
        Panic p st0 \<Rightarrow> Panic p st0
      | Return s st0 \<Rightarrow>
          (case session_Store NilInterface st0 of
             Panic p st1 \<Rightarrow> Panic p st1
           | Return _ st1 \<Rightarrow> Return (s, None) st1))"

text \<open>
  \<open>func (c *Client) CreateSession(cfg *uasc.SessionConfig) (*Session, error)\<close>.
  \<open>rand.Read\<close> fills the 32 bytes of \<open>nonce\<close>; a nil \<open>[]byte\<close> is the empty list.
\<close>

definition CreateSession_handler :: "session_config \<Rightarrow> session option handler" where
  "CreateSession_handler scfg v ls =
     (case v of
        CreateSessionResponse r \<Rightarrow>
          Return None
            (Some \<lparr>cfg = Some scfg, resp = Some r,
                   mySignature = Some empty_SignatureData,
                   signatureToSend = Some empty_SignatureData\<rparr>, snd ls)
      | _ \<Rightarrow> Return (Some (Errorf (''invalid response. Got '' @ type_name v @
                '', want CreateSessionResponse''))) ls)"

fun note_returned :: "session option \<Rightarrow> state \<Rightarrow> state" where
  "note_returned None st = st"
| "note_returned (Some s) st = st\<lparr>returned := returned st @ [s]\<rparr>"

definition CreateSession ::
  "env \<Rightarrow> session_config option \<Rightarrow> state \<Rightarrow> (session option \<times> error option, state) outcome" where
  "CreateSession e scfg st =
     (let c = the_client st in
      case sechan c of
        None \<Rightarrow> Return (None, Some (Errorf ''secure channel not connected'')) st
      | Some _ \<Rightarrow>
          (let scfg' = (case scfg of None \<Rightarrow> DefaultSessionConfig e | Some g \<Rightarrow> g);
               clientCert = (case Config c of None \<Rightarrow> [] | Some g \<Rightarrow> Certificate g);
               st1 = st\<lparr>trace := trace st @ [EvRandRead 32]\<rparr>
           in case rand_Read e (trace st1) of
                Inl err \<Rightarrow> Return (None, Some err) st1
              | Inr bs \<Rightarrow>
                  (let nonce = take 32 (bs @ replicate 32 0);
                       req = CreateSessionRequest (ClientDescription scfg') (EndpointURL c)
                               (''gopcua-'' @ Sprintf_d (time_Now_UnixNano e (trace st1)))
                               nonce clientCert
                   in case sechan_Send e (sechan c) req None (CreateSession_handler scfg')
                             (None, st1) of
                        Panic p ls \<Rightarrow> Panic p (snd ls)
                      | Return err ls \<Rightarrow>
                          Return (fst ls, err) (note_returned (fst ls) (snd ls)))))"

text \<open>
  \<open>func (c *Client) ActivateSession(s *Session) error\<close>. Building the request reads
  \<open>s.signatureToSend\<close> and \<open>s.cfg.LocaleIDs\<close>, and the call reads
  \<open>s.resp.AuthenticationToken\<close>: each is a nil pointer dereference when the pointer is nil.
\<close>

definition ActivateSession_handler :: "env \<Rightarrow> session \<Rightarrow> unit handler" where
  "ActivateSession_handler e s v ls =
     (case v of
        ActivateSessionResponse \<Rightarrow>
          (case CloseSession e (snd ls) of
             Panic p st1 \<Rightarrow> Panic p ((), st1)
           | Return (Some err) st1 \<Rightarrow>
               (case closeSession e (Some s) st1 of
                  Panic p st2 \<Rightarrow> Panic p ((), st2)
                | Return _ st2 \<Rightarrow> Return (Some err) ((), st2))
           | Return None st1 \<Rightarrow>
               (case session_Store (SessionPtr (Some s)) st1 of
                  Panic p st2 \<Rightarrow> Panic p ((), st2)
                | Return _ st2 \<Rightarrow> Return None ((), st2)))
      | _ \<Rightarrow> Return (Some (Errorf (''invalid response. Got '' @ type_name v @
                '', want ActivateSessionResponse''))) ls)"

definition ActivateSession :: "env \<Rightarrow> session option \<Rightarrow> state \<Rightarrow> (error option, state) outcome" where
  "ActivateSession e sp st =
     (case sp of
        None \<Rightarrow> Panic NilPointerDereference st
      | Some s \<Rightarrow>
          (case cfg s of
             None \<Rightarrow> Panic NilPointerDereference st
           | Some scfg \<Rightarrow>
               (let req = ActivateSessionRequest (signatureToSend s) (LocaleIDs scfg)
                            (NewExtensionObject (UserIdentityToken scfg))
                            (UserTokenSignature scfg)
                in case resp s of
                     None \<Rightarrow> Panic NilPointerDereference st
                   | Some r \<Rightarrow>
                       (case sechan_Send e (sechan (the_client st)) req
                               (AuthenticationToken r) (ActivateSession_handler e s) ((), st) of
                          Panic p ls \<Rightarrow> Panic p (snd ls)
                        | Return err ls \<Rightarrow> Return err (snd ls)))))"

text \<open>\<open>func (c *Client) Dial(cfg *uasc.Config) error\<close>\<close>

definition once_Do :: "state \<Rightarrow> (unit, state) outcome" where
  "once_Do st =
     (if once (the_client st) then Return () st
      else (case session_Store (SessionPtr None) st of
              Panic p st1 \<Rightarrow> Panic p (st1\<lparr>the_client := (the_client st1)\<lparr>once := True\<rparr>\<rparr>)
            | Return _ st1 \<Rightarrow> Return () (st1\<lparr>the_client := (the_client st1)\<lparr>once := True\<rparr>\<rparr>)))"

definition Dial :: "env \<Rightarrow> config option \<Rightarrow> state \<Rightarrow> (error option, state) outcome" where
  "Dial e ccfg st =
     (case once_Do st of
        Panic p st0 \<Rightarrow> Panic p st0
      | Return _ st0 \<Rightarrow>
          (let c = the_client st0 in
           case sechan c of
             Some _ \<Rightarrow> Return (Some (Errorf ''secure channel already connected'')) st0
           | None \<Rightarrow>
               (let st1 = st0\<lparr>trace := trace st0 @ [EvDial (EndpointURL c)]\<rparr> in
                case uacp_Dial e (trace st1) of
                  Inl err \<Rightarrow> Return (Some err) st1
                | Inr cn \<Rightarrow>
                    (let ccfg' = (case ccfg of None \<Rightarrow> DefaultClientConfig e | Some g \<Rightarrow> g);
                         st2 = st1\<lparr>trace := trace st1 @
                                 [EvNewSecureChannel (EndpointURL c) cn ccfg']\<rparr>
                     in case uasc_NewSecureChannel e (trace st2) of
                          Some err \<Rightarrow>
                            Return (Some err) (st2\<lparr>trace := trace st2 @ [EvConnClose cn]\<rparr>)
                        | None \<Rightarrow>
                            (let st3 = st2\<lparr>trace := trace st2 @ [EvOpen]\<rparr> in
                             case sechan_Open e (trace st3) of
                               Some err \<Rightarrow>
                                 Return (Some err)
                                   (st3\<lparr>trace := trace st3 @ [EvConnClose cn]\<rparr>)
                             | None \<Rightarrow>
                                 Return None
                                   (st3\<lparr>the_client := c\<lparr>sechan :=
                                      Some (SecureChannel (EndpointURL c) cn ccfg')\<rparr>\<rparr>))))))"

text \<open>\<open>func (c *Client) Close() error\<close>; \<open>c.sechan.Close()\<close> on a nil channel is a nil
  pointer dereference, as for \<open>Send\<close>.\<close>

definition Close :: "env \<Rightarrow> state \<Rightarrow> (error option, state) outcome" where
  "Close e st =
     (case CloseSession e st of
        Panic p st1 \<Rightarrow> Panic p st1
      | Return _ st1 \<Rightarrow>
          (case sechan (the_client st1) of
             None \<Rightarrow> Panic NilPointerDereference st1
           | Some _ \<Rightarrow>
               (let st2 = st1\<lparr>trace := trace st1 @ [EvChannelClose]\<rparr>
                in Return (sechan_Close e (trace st2)) st2)))"

text \<open>\<open>func (c *Client) Connect() (err error)\<close>\<close>

definition Connect :: "env \<Rightarrow> state \<Rightarrow> (error option, state) outcome" where
  "Connect e st =
     (case sechan (the_client st) of
        Some _ \<Rightarrow> Return (Some (Errorf ''already connected'')) st
      | None \<Rightarrow>
          (case Dial e (Config (the_client st)) st of
             Panic p st1 \<Rightarrow> Panic p st1
           | Return (Some err) st1 \<Rightarrow> Return (Some err) st1
           | Return None st1 \<Rightarrow>
               (case CreateSession e (SessionConfig (the_client st1)) st1 of
                  Panic p st2 \<Rightarrow> Panic p st2
                | Return (s, Some err) st2 \<Rightarrow>
                    (case Close e st2 of
                       Panic p st3 \<Rightarrow> Panic p st3
                     | Return _ st3 \<Rightarrow> Return (Some err) st3)
                | Return (s, None) st2 \<Rightarrow>
                    (case ActivateSession e s st2 of
                       Panic p st3 \<Rightarrow> Panic p st3
                     | Return (Some err) st3 \<Rightarrow>
                         (case Close e st3 of
                            Panic p st4 \<Rightarrow> Panic p st4
                          | Return _ st4 \<Rightarrow> Return (Some err) st4)
                     | Return None st3 \<Rightarrow> Return None st3))))"

text \<open>\<open>func (c *Client) GetEndpoints() (*ua.GetEndpointsResponse, error)\<close>; the handler
  captures the variable \<open>res\<close>.\<close>

definition GetEndpoints_handler :: "string list option handler" where
  "GetEndpoints_handler v ls =
     (case v of
        GetEndpointsResponse r \<Rightarrow> Return None (Some r, snd ls)
      | _ \<Rightarrow> Return (Some (Errorf (''invalid response: '' @ type_name v))) ls)"

definition GetEndpoints :: "env \<Rightarrow> state \<Rightarrow> (string list option \<times> error option, state) outcome" where
  "GetEndpoints e st =
     (case Send e (GetEndpointsRequest (EndpointURL (the_client st))) GetEndpoints_handler
             (None, st) of
        Panic p ls \<Rightarrow> Panic p (snd ls)
      | Return err ls \<Rightarrow> Return (fst ls, err) (snd ls))"

text \<open>The zero value \<open>&Client{EndpointURL: endpoint}\<close>, before any call.\<close>

definition new_Client :: "string \<Rightarrow> client" where
  "new_Client url =
     \<lparr>EndpointURL = url, Config = None, SessionConfig = None, sechan = None,
      session_holder = NothingStored, once = False\<rparr>"

definition initial :: "string \<Rightarrow> state" where
  "initial url = \<lparr>the_client = new_Client url, trace = [], returned = []\<rparr>"

subsection \<open>Notions used in the statements\<close>

text \<open>The token \<open>Send\<close> attaches for an active session \<open>p\<close>: nil when there is none.\<close>

definition auth_token_of :: "session option \<Rightarrow> node_id option" where
  "auth_token_of p =
     (case p of None \<Rightarrow> None
      | Some s \<Rightarrow> (case resp s of None \<Rightarrow> None | Some r \<Rightarrow> AuthenticationToken r))"

text \<open>The state once a request has been handed to the secure channel.\<close>

definition sending :: "request \<Rightarrow> node_id option \<Rightarrow> state \<Rightarrow> state" where
  "sending req tok st = st\<lparr>trace := trace st @ [EvSend req tok]\<rparr>"

text \<open>The error \<open>closeSession\<close> returns for an answer of the secure channel to its
  \<open>CloseSessionRequest\<close>: the channel's error, or the handler's for a value of another type.\<close>

definition closeSession_error :: "send_result \<Rightarrow> error option" where
  "closeSession_error a =
     (case a of
        SendError err \<Rightarrow> Some err
      | Reply v \<Rightarrow> (if v = CloseSessionResponse then None
                    else Some (Errorf (''invalid response. Got '' @ type_name v @
                           '', want ActivateSessionResponse''))))"

text \<open>The request \<open>CreateSession\<close> builds from the nonce bytes \<open>bs\<close>.\<close>

definition CreateSession_request ::
  "env \<Rightarrow> session_config option \<Rightarrow> state \<Rightarrow> byte list \<Rightarrow> request" where
  "CreateSession_request e scfg st bs =
     CreateSessionRequest
       (ClientDescription (case scfg of None \<Rightarrow> DefaultSessionConfig e | Some g \<Rightarrow> g))
       (EndpointURL (the_client st))
       (''gopcua-'' @ Sprintf_d (time_Now_UnixNano e (trace st @ [EvRandRead 32])))
       (take 32 (bs @ replicate 32 0))
       (case Config (the_client st) of None \<Rightarrow> [] | Some g \<Rightarrow> Certificate g)"

text \<open>
  The states a client can be in (see \<open>wf_run\<close> and \<open>wf_run_with\<close> below): the holder is initialised exactly
  when \<open>once\<close> has run, a channel exists only after that, and an active session carries the
  response of its \<open>CreateSession\<close>.
\<close>

definition wf :: "state \<Rightarrow> bool" where
  "wf st =
     (let c = the_client st in
      (once c = (session_holder c \<noteq> NothingStored)) \<and>
      (sechan c = None \<or> once c) \<and>
      (case session_holder c of
         NothingStored \<Rightarrow> True
       | Stored None \<Rightarrow> True
       | Stored (Some s) \<Rightarrow> resp s \<noteq> None))"

subsection \<open>A server and a client to run the methods on\<close>

text \<open>A server that answers every request with the response of its service.\<close>

definition answer_ok :: "event list \<Rightarrow> send_result" where
  "answer_ok tr =
     (case last tr of
        EvSend (CreateSessionRequest _ _ _ _ _) _ \<Rightarrow>
          Reply (CreateSessionResponse
            \<lparr>SessionID = Some (NumericNodeID 1 (length tr)),
             AuthenticationToken = Some (NumericNodeID 0 (length tr)),
             ServerNonce = []\<rparr>)
      | EvSend (ActivateSessionRequest _ _ _ _) _ \<Rightarrow> Reply ActivateSessionResponse
      | EvSend (CloseSessionRequest _) _ \<Rightarrow> Reply CloseSessionResponse
      | EvSend (GetEndpointsRequest url) _ \<Rightarrow> Reply (GetEndpointsResponse [url])
      | _ \<Rightarrow> SendError (ForeignError ''EOF''))"

definition server_ok :: env where
  "server_ok =
     \<lparr>uacp_Dial = (\<lambda>tr. Inr 1),
      uasc_NewSecureChannel = (\<lambda>tr. None),
      sechan_Open = (\<lambda>tr. None),
      sechan_answer = answer_ok,
      sechan_Close = (\<lambda>tr. None),
      rand_Read = (\<lambda>tr. Inr (replicate 32 7)),
      time_Now_UnixNano = (\<lambda>tr. 42),
      DefaultClientConfig = \<lparr>Certificate = [], RequestedLifetime = 3600000\<rparr>,
      DefaultSessionConfig =
        \<lparr>ClientDescription = [], LocaleIDs = [''en-US''],
         UserIdentityToken = AnonymousIdentityToken ''open62541-anonymous-policy'',
         UserTokenSignature = None\<rparr>\<rparr>"

definition endpoint :: string where
  "endpoint = ''opc.tcp://localhost:4840''"

text \<open>The client after a first successful \<open>Dial\<close>.\<close>

definition dialed :: state where
  "dialed = state_of (Dial server_ok None (initial endpoint))"

text \<open>The request \<open>ActivateSession\<close> builds for the session \<open>s\<close> with configuration \<open>scfg\<close>.\<close>

definition ActivateSession_request :: "session \<Rightarrow> session_config \<Rightarrow> request" where
  "ActivateSession_request s scfg =
     ActivateSessionRequest (signatureToSend s) (LocaleIDs scfg)
       (NewExtensionObject (UserIdentityToken scfg)) (UserTokenSignature scfg)"

text \<open>The session the handler of \<open>CreateSession\<close> builds from the response.\<close>

definition new_Session :: "session_config \<Rightarrow> create_session_response \<Rightarrow> session" where
  "new_Session scfg r =
     \<lparr>cfg = Some scfg, resp = Some r, mySignature = Some empty_SignatureData,
      signatureToSend = Some empty_SignatureData\<rparr>"

text \<open>A server that refuses every \<open>CloseSessionRequest\<close> and answers the rest.\<close>

definition answer_close_fails :: "event list \<Rightarrow> send_result" where
  "answer_close_fails tr =
     (case last tr of
        EvSend (CloseSessionRequest _) _ \<Rightarrow> SendError (ForeignError ''BadSessionClosed'')
      | _ \<Rightarrow> answer_ok tr)"

definition server_close_fails :: env where
  "server_close_fails = server_ok\<lparr>sechan_answer := answer_close_fails\<rparr>"

text \<open>The client after \<open>Connect\<close> on a new client; its session is \<open>session_A\<close>.\<close>

definition connected :: "env \<Rightarrow> state" where
  "connected e = state_of (Connect e (initial endpoint))"

definition token_A :: "node_id option" where
  "token_A = Some (NumericNodeID 0 5)"

definition session_A :: session where
  "session_A = new_Session (DefaultSessionConfig server_ok)
     \<lparr>SessionID = Some (NumericNodeID 1 5), AuthenticationToken = token_A, ServerNonce = []\<rparr>"

definition trace_connected :: "event list" where
  "trace_connected =
     [EvDial endpoint, EvNewSecureChannel endpoint 1 (DefaultClientConfig server_ok), EvOpen,
      EvRandRead 32,
      EvSend (CreateSession_request server_ok None dialed (replicate 32 7)) None,
      EvSend (ActivateSession_request session_A (DefaultSessionConfig server_ok)) token_A]"

definition created :: state where
  "created = dialed\<lparr>trace := trace dialed @
       [EvRandRead 32, EvSend (CreateSession_request server_ok None dialed (replicate 32 7)) None],
     returned := [session_A]\<rparr>"

definition connected_state :: state where
  "connected_state =
     \<lparr>the_client = (the_client dialed)\<lparr>session_holder := Stored (Some session_A)\<rparr>,
      trace = trace_connected, returned = [session_A]\<rparr>"

definition token_B :: "node_id option" where
  "token_B = Some (NumericNodeID 0 8)"

definition session_B :: session where
  "session_B = new_Session (DefaultSessionConfig server_ok)
     \<lparr>SessionID = Some (NumericNodeID 1 8), AuthenticationToken = token_B, ServerNonce = []\<rparr>"

text \<open>A second session \<open>session_B\<close> is created while \<open>session_A\<close> is active.\<close>

definition two_sessions :: state where
  "two_sessions = state_of (CreateSession server_close_fails None (connected server_close_fails))"

subsection \<open>Sequences of calls\<close>

text \<open>
  The methods a caller can invoke, with their arguments. A panic ends a call, not the run:
  the next call starts in the state at the panic (a caller may recover). The handler of
  \<open>OpSend\<close> only looks at the response.
\<close>

datatype op =
    OpConnect
  | OpDial "config option"
  | OpClose
  | OpSession
  | OpCreateSession "session_config option"
  | OpActivateSession "session option"
  | OpCloseSession
  | OpDetachSession
  | OpSend request "response \<Rightarrow> error option"
  | OpGetEndpoints

definition plain_handler :: "(response \<Rightarrow> error option) \<Rightarrow> unit handler" where
  "plain_handler h v ls = Return (h v) ls"

fun exec :: "env \<Rightarrow> op \<Rightarrow> state \<Rightarrow> state" where
  "exec e OpConnect st = state_of (Connect e st)"
| "exec e (OpDial ccfg) st = state_of (Dial e ccfg st)"
| "exec e OpClose st = state_of (Close e st)"
| "exec e OpSession st = state_of (Session st)"
| "exec e (OpCreateSession scfg) st = state_of (CreateSession e scfg st)"
| "exec e (OpActivateSession sp) st = state_of (ActivateSession e sp st)"
| "exec e OpCloseSession st = state_of (CloseSession e st)"
| "exec e OpDetachSession st = state_of (DetachSession st)"
| "exec e (OpSend req h) st = snd (state_of (Send e req (plain_handler h) ((), st)))"
| "exec e OpGetEndpoints st = state_of (GetEndpoints e st)"

definition run :: "env \<Rightarrow> op list \<Rightarrow> state \<Rightarrow> state" where
  "run e ops st = fold (exec e) ops st"

text \<open>The sessions a caller hands to \<open>ActivateSession\<close> in a sequence of calls.\<close>

fun offered :: "op list \<Rightarrow> session list" where
  "offered [] = []"
| "offered (OpActivateSession (Some s) # ops) = s # offered ops"
| "offered (_ # ops) = offered ops"

text \<open>The calls that invoke \<open>Dial\<close>.\<close>

fun calls_Dial :: "op \<Rightarrow> bool" where
  "calls_Dial OpConnect = True"
| "calls_Dial (OpDial _) = True"
| "calls_Dial _ = False"

definition dial_free :: "op list \<Rightarrow> bool" where
  "dial_free ops = (filter calls_Dial ops = [])"

text \<open>
  The invariant of the runs: the state is well formed, \<open>once\<close> has run (when \<open>b\<close>), and
  the active session was offered by the caller (\<open>A\<close>) or returned by \<open>CreateSession\<close>.
\<close>

definition inv :: "bool \<Rightarrow> session set \<Rightarrow> state \<Rightarrow> bool" where
  "inv b A st =
     (wf st \<and> (b \<longrightarrow> once (the_client st)) \<and>
      (\<forall>s. session_holder (the_client st) = Stored (Some s) \<longrightarrow>
             s \<in> A \<or> s \<in> set (returned st)))"

subsection \<open>Clients and sessions a caller can write\<close>

text \<open>The zero value \<open>Session{}\<close>: the fields of \<open>Session\<close> are unexported, so outside the
  package this is the only session a caller can build without \<open>CreateSession\<close>.\<close>

definition zero_Session :: session where
  "zero_Session = \<lparr>cfg = None, resp = None, mySignature = None, signatureToSend = None\<rparr>"

text \<open>The client \<open>&Client{EndpointURL: url, Config: ccfg, SessionConfig: scfg}\<close> before any
  call: the unexported fields have their zero values.\<close>

definition new_Client_with ::
  "string \<Rightarrow> config option \<Rightarrow> session_config option \<Rightarrow> client" where
  "new_Client_with url ccfg scfg =
     \<lparr>EndpointURL = url, Config = ccfg, SessionConfig = scfg, sechan = None,
      session_holder = NothingStored, once = False\<rparr>"

definition initial_with ::
  "string \<Rightarrow> config option \<Rightarrow> session_config option \<Rightarrow> state" where
  "initial_with url ccfg scfg =
     \<lparr>the_client = new_Client_with url ccfg scfg, trace = [], returned = []\<rparr>"

text \<open>A session that some call of \<open>CreateSession\<close>, on any client and against any server,
  returns. These are the sessions \<open>new_Session scfg r\<close> (\<open>returned_by_CreateSession_iff\<close>).\<close>

definition returned_by_CreateSession :: "session \<Rightarrow> bool" where
  "returned_by_CreateSession s =
     (\<exists>e g st err st'. CreateSession e g st = Return (Some s, err) st')"

text \<open>Every session in the history of the run was returned by \<open>CreateSession\<close>.\<close>

definition made :: "state \<Rightarrow> bool" where
  "made st = (\<forall>s\<in>set (returned st). returned_by_CreateSession s)"

section \<open>Properties\<close>

subsection \<open>The holder, the channel and \<open>Send\<close>\<close>

lemma Session_eq:
  "Session st = (case session_holder (the_client st) of
                   NothingStored \<Rightarrow> Panic InterfaceConversion st
                 | Stored p \<Rightarrow> Return p st)"
  by (simp add: Session_def split: atomic_Value.splits)

lemma session_Store_ptr:
  "session_Store (SessionPtr p) st =
     Return () (st\<lparr>the_client := (the_client st)\<lparr>session_holder := Stored p\<rparr>\<rparr>)"
  by (simp add: session_Store_def)

lemma session_Store_nil: "session_Store NilInterface st = Panic StoreOfNilValue st"
  by (simp add: session_Store_def)

lemma sechan_Send_None: "sechan_Send e None req tok h ls = Panic NilPointerDereference ls"
  by (simp add: sechan_Send_def)

lemma sechan_Send_Some:
  "sechan_Send e (Some ch) req tok h (l, st) =
     (case sechan_answer e (trace st @ [EvSend req tok]) of
        SendError err \<Rightarrow> Return (Some err) (l, sending req tok st)
      | Reply v \<Rightarrow> h v (l, sending req tok st))"
  by (simp add: sechan_Send_def sending_def Let_def split: send_result.split)

lemma Send_unset:
  "session_holder (the_client st) = NothingStored \<Longrightarrow>
   Send e req h (l, st) = Panic InterfaceConversion (l, st)"
  by (simp add: Send_def Session_eq)

lemma Send_no_resp:
  "session_holder (the_client st) = Stored (Some s) \<Longrightarrow> resp s = None \<Longrightarrow>
   Send e req h (l, st) = Panic NilPointerDereference (l, st)"
  by (simp add: Send_def Session_eq)

lemma Send_stored:
  "session_holder (the_client st) = Stored p \<Longrightarrow> (\<And>s. p = Some s \<Longrightarrow> resp s \<noteq> None) \<Longrightarrow>
   Send e req h (l, st) =
     sechan_Send e (sechan (the_client st)) req (auth_token_of p) h (l, st)"
  by (cases p) (auto simp add: Send_def Session_eq auth_token_of_def)

lemma closeSession_handler_eq:
  "closeSession_handler v ls =
     Return (if v = CloseSessionResponse then None
             else Some (Errorf (''invalid response. Got '' @ type_name v @
                '', want ActivateSessionResponse''))) ls"
  by (cases v) (simp_all add: closeSession_handler_def)

subsection \<open>Frames\<close>

lemma sent_append: "sent (xs @ ys) = sent xs @ sent ys"
  by (induction xs rule: sent.induct) simp_all

lemma sending_simps [simp]:
  "the_client (sending req tok st) = the_client st"
  "returned (sending req tok st) = returned st"
  "trace (sending req tok st) = trace st @ [EvSend req tok]"
  by (simp_all add: sending_def)

lemma sechan_Send_frame:
  assumes "\<And>v l st. P (snd (state_of (h v (l, st)))) = P st"
      and "\<And>st. P (sending req tok st) = P st"
  shows "P (snd (state_of (sechan_Send e ch req tok h (l, st)))) = P st"
proof (cases ch)
  case None
  then show ?thesis by (simp add: sechan_Send_None)
next
  case (Some c)
  show ?thesis
    using assms by (cases "sechan_answer e (trace st @ [EvSend req tok])")
      (simp_all add: Some sechan_Send_Some)
qed

lemma Send_frame:
  assumes "\<And>v l st. P (snd (state_of (h v (l, st)))) = P st"
      and "\<And>tok st. P (sending req tok st) = P st"
  shows "P (snd (state_of (Send e req h (l, st)))) = P st"
proof (cases "session_holder (the_client st)")
  case NothingStored
  then show ?thesis by (simp add: Send_unset)
next
  case (Stored p)
  show ?thesis
  proof (cases "\<exists>s. p = Some s \<and> resp s = None")
    case True
    then show ?thesis using Stored by (auto simp add: Send_no_resp)
  next
    case False
    then have "Send e req h (l, st) =
       sechan_Send e (sechan (the_client st)) req (auth_token_of p) h (l, st)"
      using Stored by (intro Send_stored) auto
    then show ?thesis using assms by (simp add: sechan_Send_frame)
  qed
qed

lemma closeSession_client: "the_client (state_of (closeSession e p st)) = the_client st"
proof (cases p)
  case None
  then show ?thesis by (simp add: closeSession_def)
next
  case (Some s)
  have "the_client (snd (state_of (Send e (CloseSessionRequest True) closeSession_handler ((), st))))
        = the_client st"
    by (rule Send_frame) (simp_all add: closeSession_handler_eq)
  then show ?thesis using Some
    by (cases "Send e (CloseSessionRequest True) closeSession_handler ((), st)")
       (auto simp add: closeSession_def)
qed

lemma closeSession_returned: "returned (state_of (closeSession e p st)) = returned st"
proof (cases p)
  case None
  then show ?thesis by (simp add: closeSession_def)
next
  case (Some s)
  have "returned (snd (state_of (Send e (CloseSessionRequest True) closeSession_handler ((), st))))
        = returned st"
    by (rule Send_frame) (simp_all add: closeSession_handler_eq)
  then show ?thesis using Some
    by (cases "Send e (CloseSessionRequest True) closeSession_handler ((), st)")
       (auto simp add: closeSession_def)
qed

lemma closeSession_None: "closeSession e None st = Return None st"
  by (simp add: closeSession_def)

lemma closeSession_eq:
  assumes "session_holder (the_client st) = Stored p"
      and "\<And>s. p = Some s \<Longrightarrow> resp s \<noteq> None"
      and "sechan (the_client st) = Some ch"
  shows "closeSession e (Some s') st =
     Return (closeSession_error (sechan_answer e
               (trace st @ [EvSend (CloseSessionRequest True) (auth_token_of p)])))
       (sending (CloseSessionRequest True) (auth_token_of p) st)"
proof -
  have "Send e (CloseSessionRequest True) closeSession_handler ((), st) =
     sechan_Send e (Some ch) (CloseSessionRequest True) (auth_token_of p)
       closeSession_handler ((), st)"
    using Send_stored [OF assms(1) assms(2)] assms(3) by simp
  then show ?thesis
    by (simp add: closeSession_def sechan_Send_Some closeSession_handler_eq
          closeSession_error_def split: send_result.split)
qed

lemma closeSession_no_channel:
  assumes "sechan (the_client st) = None"
  shows "panicked (closeSession e (Some s') st)"
proof (cases "session_holder (the_client st)")
  case NothingStored
  then show ?thesis by (simp add: closeSession_def Send_unset)
next
  case (Stored p)
  show ?thesis
  proof (cases "\<exists>s. p = Some s \<and> resp s = None")
    case True
    then show ?thesis using Stored by (auto simp add: closeSession_def Send_no_resp)
  next
    case False
    then have "Send e (CloseSessionRequest True) closeSession_handler ((), st) =
       sechan_Send e (sechan (the_client st)) (CloseSessionRequest True) (auth_token_of p)
         closeSession_handler ((), st)"
      using Stored by (intro Send_stored) auto
    then show ?thesis using assms by (simp add: closeSession_def sechan_Send_None)
  qed
qed

lemma closeSession_no_resp:
  assumes "session_holder (the_client st) = Stored (Some s)" and "resp s = None"
  shows "panicked (closeSession e (Some s') st)"
  using assms by (simp add: closeSession_def Send_no_resp)

lemma CloseSession_unset:
  "session_holder (the_client st) = NothingStored \<Longrightarrow>
   CloseSession e st = Panic InterfaceConversion st"
  by (simp add: CloseSession_def Session_eq)

lemma CloseSession_no_session:
  "session_holder (the_client st) = Stored None \<Longrightarrow>
   CloseSession e st = Return None st"
proof -
  assume h: "session_holder (the_client st) = Stored None"
  have "(the_client st)\<lparr>session_holder := Stored None\<rparr> = the_client st"
    using h by (cases "the_client st") simp
  then show ?thesis
    using h by (simp add: CloseSession_def Session_eq closeSession_None session_Store_ptr)
qed

lemma CloseSession_step:
  "session_holder (the_client st) = Stored p \<Longrightarrow>
   CloseSession e st =
     (case closeSession e p st of
        Panic q st1 \<Rightarrow> Panic q st1
      | Return (Some err) st1 \<Rightarrow> Return (Some err) st1
      | Return None st1 \<Rightarrow>
          Return None (st1\<lparr>the_client := (the_client st1)\<lparr>session_holder := Stored None\<rparr>\<rparr>))"
  by (simp add: CloseSession_def Session_eq session_Store_ptr
        split: outcome.split option.split)

lemma once_Do_eq:
  "once_Do st =
     (if once (the_client st) then Return () st
      else Return () (st\<lparr>the_client := (the_client st)\<lparr>session_holder := Stored None,
                                                      once := True\<rparr>\<rparr>))"
  by (simp add: once_Do_def session_Store_ptr)

lemma Dial_ok:
  assumes "sechan (the_client st) = None"
      and "uacp_Dial e (trace st @ [EvDial (EndpointURL (the_client st))]) = Inr cn"
      and "uasc_NewSecureChannel e (trace st @ [EvDial (EndpointURL (the_client st)),
              EvNewSecureChannel (EndpointURL (the_client st)) cn
                (case ccfg of None \<Rightarrow> DefaultClientConfig e | Some g \<Rightarrow> g)]) = None"
      and "sechan_Open e (trace st @ [EvDial (EndpointURL (the_client st)),
              EvNewSecureChannel (EndpointURL (the_client st)) cn
                (case ccfg of None \<Rightarrow> DefaultClientConfig e | Some g \<Rightarrow> g), EvOpen]) = None"
  shows "Dial e ccfg st =
     Return None
       (st\<lparr>the_client := (the_client st)
              \<lparr>sechan := Some (SecureChannel (EndpointURL (the_client st)) cn
                  (case ccfg of None \<Rightarrow> DefaultClientConfig e | Some g \<Rightarrow> g)),
               session_holder := (if once (the_client st) then session_holder (the_client st)
                                  else Stored None),
               once := True\<rparr>,
            trace := trace st @ [EvDial (EndpointURL (the_client st)),
              EvNewSecureChannel (EndpointURL (the_client st)) cn
                (case ccfg of None \<Rightarrow> DefaultClientConfig e | Some g \<Rightarrow> g), EvOpen]\<rparr>)"
  using assms by (cases "once (the_client st)") (simp_all add: Dial_def once_Do_eq Let_def)

lemma dialed_eq:
  "dialed =
     \<lparr>the_client =
        \<lparr>EndpointURL = endpoint, Config = None, SessionConfig = None,
         sechan = Some (SecureChannel endpoint 1 (DefaultClientConfig server_ok)),
         session_holder = Stored None, once = True\<rparr>,
      trace = [EvDial endpoint,
               EvNewSecureChannel endpoint 1 (DefaultClientConfig server_ok), EvOpen],
      returned = []\<rparr>"
proof -
  have "Dial server_ok None (initial endpoint) = Return None
     \<lparr>the_client =
        \<lparr>EndpointURL = endpoint, Config = None, SessionConfig = None,
         sechan = Some (SecureChannel endpoint 1 (DefaultClientConfig server_ok)),
         session_holder = Stored None, once = True\<rparr>,
      trace = [EvDial endpoint,
               EvNewSecureChannel endpoint 1 (DefaultClientConfig server_ok), EvOpen],
      returned = []\<rparr>"
    by (subst Dial_ok [where cn = 1]) (simp_all add: initial_def new_Client_def server_ok_def)
  then show ?thesis by (simp add: dialed_def)
qed

subsection \<open>Claims about \<open>Connect\<close>, \<open>DetachSession\<close> and \<open>CreateSession\<close>\<close>

text \<open>
  C3. On a client that already holds a secure channel, \<open>Connect\<close> fails with the error
  "already connected" and changes nothing: the state it returns is the state it was
  called in, so the channel and the active session are the same and nothing was sent.
\<close>

theorem Connect_already_connected:
  "sechan (the_client st) = Some ch \<Longrightarrow>
   Connect e st = Return (Some (Errorf ''already connected'')) st"
  by (simp add: Connect_def)

theorem Connect_already_connected_witness:
  "sechan (the_client dialed) =
     Some (SecureChannel endpoint 1 (DefaultClientConfig server_ok)) \<and>
   Connect server_ok dialed = Return (Some (Errorf ''already connected'')) dialed"
proof -
  have h: "sechan (the_client dialed) =
     Some (SecureChannel endpoint 1 (DefaultClientConfig server_ok))"
    by (simp add: dialed_eq)
  show ?thesis using h Connect_already_connected [OF h, of server_ok] by simp
qed

lemma DetachSession_always_panics:
  "panicked (DetachSession st) \<and> state_of (DetachSession st) = st"
  by (simp add: DetachSession_def Session_eq session_Store_nil split: atomic_Value.split)

text \<open>
  C2. \<open>DetachSession\<close> does not return: \<open>c.session.Store(nil)\<close> hands the nil interface
  to \<open>atomic.Value.Store\<close>, which panics. Here on the client after a first \<open>Dial\<close>; the
  lemma above gives the panic in every state. The holder keeps what it held.
\<close>

theorem DetachSession_panics_after_Dial:
  "DetachSession dialed = Panic StoreOfNilValue dialed"
  by (simp add: DetachSession_def Session_eq session_Store_nil dialed_eq)

lemma CreateSession_handler_client:
  "the_client (snd (state_of (CreateSession_handler scfg v (l, st)))) = the_client st"
  by (cases v) (simp_all add: CreateSession_handler_def)

lemma note_returned_client: "the_client (note_returned p st) = the_client st"
  by (cases p) simp_all

lemma CreateSession_no_channel:
  "sechan (the_client st) = None \<Longrightarrow>
   CreateSession e scfg st = Return (None, Some (Errorf ''secure channel not connected'')) st"
  by (simp add: CreateSession_def)

lemma CreateSession_no_nonce:
  "sechan (the_client st) = Some ch \<Longrightarrow>
   rand_Read e (trace st @ [EvRandRead 32]) = Inl err \<Longrightarrow>
   CreateSession e scfg st = Return (None, Some err) (st\<lparr>trace := trace st @ [EvRandRead 32]\<rparr>)"
  by (simp add: CreateSession_def Let_def)

lemma CreateSession_sends:
  "sechan (the_client st) = Some ch \<Longrightarrow>
   rand_Read e (trace st @ [EvRandRead 32]) = Inr bs \<Longrightarrow>
   CreateSession e scfg st =
     (case sechan_Send e (Some ch) (CreateSession_request e scfg st bs) None
             (CreateSession_handler (case scfg of None \<Rightarrow> DefaultSessionConfig e | Some g \<Rightarrow> g))
             (None, st\<lparr>trace := trace st @ [EvRandRead 32]\<rparr>) of
        Panic p ls \<Rightarrow> Panic p (snd ls)
      | Return err ls \<Rightarrow> Return (fst ls, err) (note_returned (fst ls) (snd ls)))"
  by (simp add: CreateSession_def Let_def CreateSession_request_def)

lemma CreateSession_client: "the_client (state_of (CreateSession e scfg st)) = the_client st"
proof (cases "sechan (the_client st)")
  case None
  then show ?thesis by (simp add: CreateSession_no_channel)
next
  case (Some ch)
  show ?thesis
  proof (cases "rand_Read e (trace st @ [EvRandRead 32])")
    case (Inl err)
    then show ?thesis using Some by (simp add: CreateSession_no_nonce)
  next
    case (Inr bs)
    define out where "out = sechan_Send e (Some ch) (CreateSession_request e scfg st bs) None
             (CreateSession_handler (case scfg of None \<Rightarrow> DefaultSessionConfig e | Some g \<Rightarrow> g))
             (None, st\<lparr>trace := trace st @ [EvRandRead 32]\<rparr>)"
    have fr: "the_client (snd (state_of out)) = the_client st"
      unfolding out_def by (subst sechan_Send_frame) (simp_all add: CreateSession_handler_client)
    have eq: "CreateSession e scfg st =
       (case out of Panic p ls \<Rightarrow> Panic p (snd ls)
        | Return err ls \<Rightarrow> Return (fst ls, err) (note_returned (fst ls) (snd ls)))"
      unfolding out_def using Some Inr by (rule CreateSession_sends)
    show ?thesis using fr by (cases out) (simp_all add: eq note_returned_client)
  qed
qed

text \<open>
  C5. \<open>CreateSession\<close> leaves the client as it was, whether it returns a session, returns
  an error or panics: the holder of the active session is unchanged.
\<close>

theorem CreateSession_keeps_active_session:
  "the_client (state_of (CreateSession e scfg st)) = the_client st \<and>
   session_holder (the_client (state_of (CreateSession e scfg st))) =
     session_holder (the_client st)"
  by (simp add: CreateSession_client)

subsection \<open>\<open>CloseSession\<close> and \<open>Close\<close>\<close>

lemma wf_holder:
  "wf st \<Longrightarrow> sechan (the_client st) = Some ch \<Longrightarrow>
   \<exists>p. session_holder (the_client st) = Stored p \<and> (\<forall>s. p = Some s \<longrightarrow> resp s \<noteq> None)"
  by (cases "session_holder (the_client st)")
     (auto simp add: wf_def Let_def split: option.splits)

lemma CloseSession_connected:
  assumes "session_holder (the_client st) = Stored (Some s)"
      and "resp s = Some r" and "sechan (the_client st) = Some ch"
  shows "CloseSession e st =
     (case closeSession_error (sechan_answer e
             (trace st @ [EvSend (CloseSessionRequest True) (AuthenticationToken r)])) of
        Some err \<Rightarrow>
          Return (Some err) (sending (CloseSessionRequest True) (AuthenticationToken r) st)
      | None \<Rightarrow>
          Return None
            ((sending (CloseSessionRequest True) (AuthenticationToken r) st)
               \<lparr>the_client := (the_client st)\<lparr>session_holder := Stored None\<rparr>\<rparr>))"
proof -
  have tok: "auth_token_of (Some s) = AuthenticationToken r"
    using assms(2) by (simp add: auth_token_of_def)
  have "closeSession e (Some s) st =
     Return (closeSession_error (sechan_answer e
               (trace st @ [EvSend (CloseSessionRequest True) (AuthenticationToken r)])))
       (sending (CloseSessionRequest True) (AuthenticationToken r) st)"
    using closeSession_eq [where s' = s and e = e, OF assms(1) _ assms(3)] assms(2) tok by simp
  then show ?thesis
    by (simp add: CloseSession_step [OF assms(1)] split: option.split)
qed

lemma CloseSession_panics_without_channel:
  assumes "session_holder (the_client st) = Stored (Some s)"
      and "sechan (the_client st) = None \<or> resp s = None"
  shows "\<exists>q st'. CloseSession e st = Panic q st' \<and> the_client st' = the_client st"
proof -
  have "panicked (closeSession e (Some s) st)"
    using assms closeSession_no_channel closeSession_no_resp by blast
  moreover have "the_client (state_of (closeSession e (Some s) st)) = the_client st"
    by (rule closeSession_client)
  ultimately show ?thesis
    by (cases "closeSession e (Some s) st") (simp_all add: CloseSession_step [OF assms(1)])
qed

text \<open>
  C9. With an active session \<open>s\<close>, \<open>CloseSession\<close> clears the holder only when it returns
  no error, and it returns no error only when there is a channel and the channel answered
  the \<open>CloseSessionRequest\<close> (sent with the token of \<open>s\<close>) with a
  \<open>CloseSessionResponse\<close>. When it returns an error or panics the client is as before,
  so \<open>s\<close> is still the active session.
\<close>

theorem CloseSession_clears_only_on_success:
  assumes "session_holder (the_client st) = Stored (Some s)"
  shows "(case CloseSession e st of
            Return None st' \<Rightarrow>
              the_client st' = (the_client st)\<lparr>session_holder := Stored None\<rparr> \<and>
              (\<exists>ch r. sechan (the_client st) = Some ch \<and> resp s = Some r \<and>
                 sechan_answer e
                   (trace st @ [EvSend (CloseSessionRequest True) (AuthenticationToken r)])
                 = Reply CloseSessionResponse)
          | Return (Some err) st' \<Rightarrow> the_client st' = the_client st
          | Panic q st' \<Rightarrow> the_client st' = the_client st)"
proof (cases "sechan (the_client st) = None \<or> resp s = None")
  case True
  then show ?thesis
    using CloseSession_panics_without_channel [OF assms, of e] by auto
next
  case False
  then obtain ch r where ch: "sechan (the_client st) = Some ch" and r: "resp s = Some r"
    by auto
  let ?a = "sechan_answer e
              (trace st @ [EvSend (CloseSessionRequest True) (AuthenticationToken r)])"
  show ?thesis
  proof (cases "closeSession_error ?a")
    case None
    then have "?a = Reply CloseSessionResponse"
      by (auto simp add: closeSession_error_def split: send_result.splits if_splits)
    then show ?thesis
      using None ch r by (simp add: CloseSession_connected [OF assms r ch])
  next
    case (Some err)
    then show ?thesis
      using ch r by (simp add: CloseSession_connected [OF assms r ch])
  qed
qed

lemma CloseSession_returns:
  assumes "wf st" and "sechan (the_client st) = Some ch"
  shows "\<exists>r st1. CloseSession e st = Return r st1 \<and>
           sechan (the_client st1) = Some ch"
proof -
  obtain p where p: "session_holder (the_client st) = Stored p"
    and rs: "\<forall>s. p = Some s \<longrightarrow> resp s \<noteq> None"
    using wf_holder [OF assms] by blast
  show ?thesis
  proof (cases p)
    case None
    then show ?thesis using p assms(2) by (simp add: CloseSession_no_session)
  next
    case (Some s)
    then obtain r where r: "resp s = Some r" using rs by auto
    have h: "session_holder (the_client st) = Stored (Some s)" using p Some by simp
    show ?thesis
      using assms(2)
      by (simp add: CloseSession_connected [OF h r assms(2)] split: option.split)
  qed
qed

text \<open>
  C7. On a connected client \<open>Close\<close> goes on to close the secure channel whatever
  \<open>CloseSession\<close> returned (\<open>r\<close> below, an error or none), and what \<open>Close\<close>
  returns is what closing the channel returned. Every state of a run from a new client is
  well formed (\<open>wf_run\<close>, \<open>wf_run_with\<close> below), so \<open>wf\<close> excludes no client a caller can build.
\<close>

theorem Close_swallows_session_error:
  assumes "wf st" and "sechan (the_client st) = Some ch"
  shows "\<exists>r st1. CloseSession e st = Return r st1 \<and>
           Close e st = Return (sechan_Close e (trace st1 @ [EvChannelClose]))
                          (st1\<lparr>trace := trace st1 @ [EvChannelClose]\<rparr>)"
proof -
  obtain r st1 where c: "CloseSession e st = Return r st1"
    and ch: "sechan (the_client st1) = Some ch"
    using CloseSession_returns [OF assms] by blast
  then show ?thesis by (simp add: Close_def Let_def)
qed

subsection \<open>\<open>ActivateSession\<close>\<close>

lemma CloseSession_summary:
  "(case CloseSession e st of
      Return None st' \<Rightarrow>
        session_holder (the_client st) \<noteq> NothingStored \<and>
        the_client st' = (the_client st)\<lparr>session_holder := Stored None\<rparr> \<and>
        returned st' = returned st
    | Return (Some err) st' \<Rightarrow> the_client st' = the_client st \<and> returned st' = returned st
    | Panic q st' \<Rightarrow> the_client st' = the_client st \<and> returned st' = returned st)"
proof (cases "session_holder (the_client st)")
  case NothingStored
  then show ?thesis by (simp add: CloseSession_unset)
next
  case (Stored p)
  have c: "the_client (state_of (closeSession e p st)) = the_client st"
    by (rule closeSession_client)
  have r: "returned (state_of (closeSession e p st)) = returned st"
    by (rule closeSession_returned)
  show ?thesis
    using c r Stored
    by (cases "closeSession e p st")
       (auto simp add: CloseSession_step [OF Stored] split: option.split)
qed

lemma ActivateSession_nil: "ActivateSession e None st = Panic NilPointerDereference st"
  by (simp add: ActivateSession_def)

lemma ActivateSession_no_cfg:
  "cfg s = None \<Longrightarrow> ActivateSession e (Some s) st = Panic NilPointerDereference st"
  by (simp add: ActivateSession_def)

lemma ActivateSession_no_resp:
  "resp s = None \<Longrightarrow> ActivateSession e (Some s) st = Panic NilPointerDereference st"
  by (simp add: ActivateSession_def Let_def split: option.split)

lemma ActivateSession_no_channel:
  "sechan (the_client st) = None \<Longrightarrow> ActivateSession e sp st = Panic NilPointerDereference st"
  by (simp add: ActivateSession_def Let_def sechan_Send_None split: option.split)

lemma ActivateSession_handler_other:
  "v \<noteq> ActivateSessionResponse \<Longrightarrow>
   ActivateSession_handler e s v ls =
     Return (Some (Errorf (''invalid response. Got '' @ type_name v @
                '', want ActivateSessionResponse''))) ls"
  by (cases v) (simp_all add: ActivateSession_handler_def)

lemma ActivateSession_handler_ok:
  "ActivateSession_handler e s ActivateSessionResponse (l, st) =
     (case CloseSession e st of
        Panic p st1 \<Rightarrow> Panic p ((), st1)
      | Return (Some err) st1 \<Rightarrow>
          (case closeSession e (Some s) st1 of
             Panic p st2 \<Rightarrow> Panic p ((), st2)
           | Return _ st2 \<Rightarrow> Return (Some err) ((), st2))
      | Return None st1 \<Rightarrow>
          Return None ((), st1\<lparr>the_client := (the_client st1)\<lparr>session_holder := Stored (Some s)\<rparr>\<rparr>))"
  by (simp add: ActivateSession_handler_def session_Store_ptr
        split: outcome.split option.split)

lemma ActivateSession_sends:
  assumes "cfg s = Some scfg" and "resp s = Some r" and "sechan (the_client st) = Some ch"
  shows "ActivateSession e (Some s) st =
     (case sechan_answer e
             (trace st @ [EvSend (ActivateSession_request s scfg) (AuthenticationToken r)]) of
        SendError err \<Rightarrow>
          Return (Some err)
            (sending (ActivateSession_request s scfg) (AuthenticationToken r) st)
      | Reply v \<Rightarrow>
          (case ActivateSession_handler e s v
                  ((), sending (ActivateSession_request s scfg) (AuthenticationToken r) st) of
             Panic p ls \<Rightarrow> Panic p (snd ls)
           | Return err ls \<Rightarrow> Return err (snd ls)))"
  using assms
  by (simp add: ActivateSession_def Let_def sechan_Send_Some ActivateSession_request_def
        split: send_result.split)

lemma ActivateSession_handler_summary:
  "(case ActivateSession_handler e s v (l, st) of
      Return None ls \<Rightarrow>
        session_holder (the_client st) \<noteq> NothingStored \<and>
        the_client (snd ls) = (the_client st)\<lparr>session_holder := Stored (Some s)\<rparr> \<and>
        returned (snd ls) = returned st
    | Return (Some err) ls \<Rightarrow>
        the_client (snd ls) = the_client st \<and> returned (snd ls) = returned st
    | Panic q ls \<Rightarrow> the_client (snd ls) = the_client st \<and> returned (snd ls) = returned st)"
proof (cases "v = ActivateSessionResponse")
  case False
  then show ?thesis by (simp add: ActivateSession_handler_other)
next
  case True
  show ?thesis
  proof (cases "CloseSession e st")
    case (Panic q st1)
    then show ?thesis
      using CloseSession_summary [where e = e and st = st] by (simp add: True ActivateSession_handler_ok)
  next
    case (Return res st1)
    show ?thesis
    proof (cases res)
      case None
      then show ?thesis
        using Return CloseSession_summary [where e = e and st = st]
        by (simp add: True ActivateSession_handler_ok)
    next
      case (Some err)
      have c: "the_client (state_of (closeSession e (Some s) st1)) = the_client st1"
        by (rule closeSession_client)
      have r: "returned (state_of (closeSession e (Some s) st1)) = returned st1"
        by (rule closeSession_returned)
      show ?thesis
        using Return Some CloseSession_summary [where e = e and st = st] c r
        by (cases "closeSession e (Some s) st1")
           (simp_all add: True ActivateSession_handler_ok)
    qed
  qed
qed

lemma ActivateSession_summary:
  "(case ActivateSession e sp st of
      Return None st' \<Rightarrow>
        session_holder (the_client st) \<noteq> NothingStored \<and>
        (\<exists>s. sp = Some s \<and> resp s \<noteq> None) \<and>
        the_client st' = (the_client st)\<lparr>session_holder := Stored sp\<rparr> \<and>
        returned st' = returned st
    | Return (Some err) st' \<Rightarrow> the_client st' = the_client st \<and> returned st' = returned st
    | Panic q st' \<Rightarrow> the_client st' = the_client st \<and> returned st' = returned st)"
proof (cases "\<exists>s scfg r ch. sp = Some s \<and> cfg s = Some scfg \<and> resp s = Some r \<and>
                 sechan (the_client st) = Some ch")
  case False
  then have "ActivateSession e sp st = Panic NilPointerDereference st"
    by (cases sp)
       (auto simp add: ActivateSession_nil ActivateSession_no_cfg ActivateSession_no_resp
          ActivateSession_no_channel)
  then show ?thesis by simp
next
  case True
  then obtain s scfg r ch where sp: "sp = Some s" and c: "cfg s = Some scfg"
    and r: "resp s = Some r" and ch: "sechan (the_client st) = Some ch"
    by blast
  let ?st1 = "sending (ActivateSession_request s scfg) (AuthenticationToken r) st"
  show ?thesis
  proof (cases "sechan_answer e
             (trace st @ [EvSend (ActivateSession_request s scfg) (AuthenticationToken r)])")
    case (SendError err)
    then show ?thesis by (simp add: sp ActivateSession_sends [OF c r ch])
  next
    case (Reply v)
    show ?thesis
      using ActivateSession_handler_summary [where e = e and s = s and v = v and l = "()" and st = ?st1] r
      by (cases "ActivateSession_handler e s v ((), ?st1)")
         (auto simp add: sp Reply ActivateSession_sends [OF c r ch] split: option.splits)
  qed
qed

subsection \<open>Runs against the two servers\<close>

lemma CreateSession_ok:
  assumes "sechan (the_client st) = Some ch"
      and "rand_Read e (trace st @ [EvRandRead 32]) = Inr bs"
      and "sechan_answer e (trace st @
              [EvRandRead 32, EvSend (CreateSession_request e scfg st bs) None])
           = Reply (CreateSessionResponse r)"
  shows "CreateSession e scfg st =
     Return (Some (new_Session (case scfg of None \<Rightarrow> DefaultSessionConfig e | Some g \<Rightarrow> g) r),
             None)
       (st\<lparr>trace := trace st @
              [EvRandRead 32, EvSend (CreateSession_request e scfg st bs) None],
            returned := returned st @
              [new_Session (case scfg of None \<Rightarrow> DefaultSessionConfig e | Some g \<Rightarrow> g) r]\<rparr>)"
  using assms(3)
  by (simp add: CreateSession_sends [OF assms(1) assms(2)] sechan_Send_Some
        CreateSession_handler_def new_Session_def sending_def)

lemma ActivateSession_first:
  assumes "session_holder (the_client st) = Stored None"
      and "cfg s = Some scfg" and "resp s = Some r" and "sechan (the_client st) = Some ch"
      and "sechan_answer e
             (trace st @ [EvSend (ActivateSession_request s scfg) (AuthenticationToken r)])
           = Reply ActivateSessionResponse"
  shows "ActivateSession e (Some s) st =
     Return None
       ((sending (ActivateSession_request s scfg) (AuthenticationToken r) st)
          \<lparr>the_client := (the_client st)\<lparr>session_holder := Stored (Some s)\<rparr>\<rparr>)"
  using assms(1,5)
  by (simp add: ActivateSession_sends [OF assms(2,3,4)] ActivateSession_handler_ok
        CloseSession_no_session)

lemma Dial_initial_ok: "Dial server_ok None (initial endpoint) = Return None dialed"
proof -
  have "Dial server_ok None (initial endpoint) = Return None
     \<lparr>the_client =
        \<lparr>EndpointURL = endpoint, Config = None, SessionConfig = None,
         sechan = Some (SecureChannel endpoint 1 (DefaultClientConfig server_ok)),
         session_holder = Stored None, once = True\<rparr>,
      trace = [EvDial endpoint,
               EvNewSecureChannel endpoint 1 (DefaultClientConfig server_ok), EvOpen],
      returned = []\<rparr>"
    by (subst Dial_ok [where cn = 1]) (simp_all add: initial_def new_Client_def server_ok_def)
  then show ?thesis by (simp add: dialed_eq)
qed

lemma server_close_fails_fields:
  "uacp_Dial server_close_fails = uacp_Dial server_ok"
  "uasc_NewSecureChannel server_close_fails = uasc_NewSecureChannel server_ok"
  "sechan_Open server_close_fails = sechan_Open server_ok"
  "sechan_Close server_close_fails = sechan_Close server_ok"
  "rand_Read server_close_fails = rand_Read server_ok"
  "time_Now_UnixNano server_close_fails = time_Now_UnixNano server_ok"
  "DefaultClientConfig server_close_fails = DefaultClientConfig server_ok"
  "DefaultSessionConfig server_close_fails = DefaultSessionConfig server_ok"
  "sechan_answer server_close_fails = answer_close_fails"
  by (simp_all add: server_close_fails_def)

lemma Dial_initial_close_fails:
  "Dial server_close_fails None (initial endpoint) = Return None dialed"
proof -
  have "Dial server_close_fails None (initial endpoint) = Return None
     \<lparr>the_client =
        \<lparr>EndpointURL = endpoint, Config = None, SessionConfig = None,
         sechan = Some (SecureChannel endpoint 1 (DefaultClientConfig server_ok)),
         session_holder = Stored None, once = True\<rparr>,
      trace = [EvDial endpoint,
               EvNewSecureChannel endpoint 1 (DefaultClientConfig server_ok), EvOpen],
      returned = []\<rparr>"
    by (subst Dial_ok [where cn = 1])
       (simp_all add: initial_def new_Client_def server_close_fails_fields, 
        simp_all add: server_ok_def)
  then show ?thesis by (simp add: dialed_eq)
qed

lemma answer_ok_simps:
  "answer_ok (tr @ [EvSend (CreateSession_request e scfg st bs) tok]) =
     Reply (CreateSessionResponse
            \<lparr>SessionID = Some (NumericNodeID 1 (Suc (length tr))),
             AuthenticationToken = Some (NumericNodeID 0 (Suc (length tr))),
             ServerNonce = []\<rparr>)"
  "answer_ok (tr @ [EvSend (ActivateSession_request s g) tok]) = Reply ActivateSessionResponse"
  "answer_ok (tr @ [EvSend (CloseSessionRequest b) tok]) = Reply CloseSessionResponse"
  "answer_ok (tr @ [EvSend (GetEndpointsRequest url) tok]) = Reply (GetEndpointsResponse [url])"
  by (simp_all add: answer_ok_def CreateSession_request_def ActivateSession_request_def)

lemma answer_close_fails_simps:
  "answer_close_fails (tr @ [EvSend (CreateSession_request e scfg st bs) tok]) =
     Reply (CreateSessionResponse
            \<lparr>SessionID = Some (NumericNodeID 1 (Suc (length tr))),
             AuthenticationToken = Some (NumericNodeID 0 (Suc (length tr))),
             ServerNonce = []\<rparr>)"
  "answer_close_fails (tr @ [EvSend (ActivateSession_request s g) tok]) =
     Reply ActivateSessionResponse"
  "answer_close_fails (tr @ [EvSend (CloseSessionRequest b) tok]) =
     SendError (ForeignError ''BadSessionClosed'')"
  by (simp_all add: answer_close_fails_def answer_ok_def CreateSession_request_def
        ActivateSession_request_def)

lemma dialed_fields:
  "sechan (the_client dialed) = Some (SecureChannel endpoint 1 (DefaultClientConfig server_ok))"
  "session_holder (the_client dialed) = Stored None"
  "SessionConfig (the_client dialed) = None"
  "Config (the_client dialed) = None"
  "EndpointURL (the_client dialed) = endpoint"
  "length (trace dialed) = 3"
  "returned dialed = []"
  by (simp_all add: dialed_eq)

lemma CreateSession_request_env:
  "CreateSession_request server_close_fails scfg st bs = CreateSession_request server_ok scfg st bs"
  by (simp add: CreateSession_request_def server_close_fails_fields split: option.split)

lemma CreateSession_dialed_ok:
  "CreateSession server_ok None dialed = Return (Some session_A, None) created"
proof -
  have r: "rand_Read server_ok (trace dialed @ [EvRandRead 32]) = Inr (replicate 32 7)"
    by (simp add: server_ok_def)
  have a: "sechan_answer server_ok (trace dialed @
              [EvRandRead 32, EvSend (CreateSession_request server_ok None dialed (replicate 32 7)) None])
           = Reply (CreateSessionResponse
               \<lparr>SessionID = Some (NumericNodeID 1 5), AuthenticationToken = token_A,
                ServerNonce = []\<rparr>)"
    using answer_ok_simps(1) [where tr = "trace dialed @ [EvRandRead 32]"]
    by (simp add: server_ok_def dialed_fields token_A_def)
  show ?thesis
    by (simp add: CreateSession_ok [OF dialed_fields(1) r a] session_A_def created_def
          dialed_fields)
qed

lemma CreateSession_dialed_close_fails:
  "CreateSession server_close_fails None dialed = Return (Some session_A, None) created"
proof -
  have r: "rand_Read server_close_fails (trace dialed @ [EvRandRead 32]) = Inr (replicate 32 7)"
    by (simp add: server_close_fails_fields) (simp add: server_ok_def)
  have a: "sechan_answer server_close_fails (trace dialed @
              [EvRandRead 32,
               EvSend (CreateSession_request server_close_fails None dialed (replicate 32 7)) None])
           = Reply (CreateSessionResponse
               \<lparr>SessionID = Some (NumericNodeID 1 5), AuthenticationToken = token_A,
                ServerNonce = []\<rparr>)"
    using answer_close_fails_simps(1) [where tr = "trace dialed @ [EvRandRead 32]"]
    by (simp add: server_close_fails_fields dialed_fields token_A_def)
  show ?thesis
    by (simp add: CreateSession_ok [OF dialed_fields(1) r a] session_A_def created_def
          dialed_fields server_close_fails_fields CreateSession_request_env)
qed

lemma session_A_fields:
  "cfg session_A = Some (DefaultSessionConfig server_ok)"
  "resp session_A = Some \<lparr>SessionID = Some (NumericNodeID 1 5), AuthenticationToken = token_A,
                           ServerNonce = []\<rparr>"
  by (simp_all add: session_A_def new_Session_def)

lemma created_fields:
  "the_client created = the_client dialed"
  "trace created = trace dialed @
       [EvRandRead 32, EvSend (CreateSession_request server_ok None dialed (replicate 32 7)) None]"
  "returned created = [session_A]"
  by (simp_all add: created_def)

lemma ActivateSession_created_ok:
  "ActivateSession server_ok (Some session_A) created = Return None connected_state"
proof -
  have h: "session_holder (the_client created) = Stored None"
    and ch: "sechan (the_client created) =
               Some (SecureChannel endpoint 1 (DefaultClientConfig server_ok))"
    by (simp_all add: created_fields dialed_fields)
  have a: "sechan_answer server_ok (trace created @
             [EvSend (ActivateSession_request session_A (DefaultSessionConfig server_ok))
                (AuthenticationToken \<lparr>SessionID = Some (NumericNodeID 1 5),
                    AuthenticationToken = token_A, ServerNonce = []\<rparr>)])
           = Reply ActivateSessionResponse"
    by (simp add: server_ok_def answer_ok_simps)
  show ?thesis
    by (simp add: ActivateSession_first [OF h session_A_fields ch a] connected_state_def
          sending_def created_fields trace_connected_def dialed_eq)
qed

lemma ActivateSession_created_close_fails:
  "ActivateSession server_close_fails (Some session_A) created = Return None connected_state"
proof -
  have h: "session_holder (the_client created) = Stored None"
    and ch: "sechan (the_client created) =
               Some (SecureChannel endpoint 1 (DefaultClientConfig server_ok))"
    by (simp_all add: created_fields dialed_fields)
  have a: "sechan_answer server_close_fails (trace created @
             [EvSend (ActivateSession_request session_A (DefaultSessionConfig server_ok))
                (AuthenticationToken \<lparr>SessionID = Some (NumericNodeID 1 5),
                    AuthenticationToken = token_A, ServerNonce = []\<rparr>)])
           = Reply ActivateSessionResponse"
    by (simp add: server_close_fails_fields answer_close_fails_simps)
  show ?thesis
    by (simp add: ActivateSession_first [OF h session_A_fields ch a] connected_state_def
          sending_def created_fields trace_connected_def dialed_eq)
qed

lemma initial_fields:
  "sechan (the_client (initial url)) = None"
  "Config (the_client (initial url)) = None"
  "session_holder (the_client (initial url)) = NothingStored"
  "once (the_client (initial url)) = False"
  by (simp_all add: initial_def new_Client_def)

lemma connected_ok: "Connect server_ok (initial endpoint) = Return None connected_state"
  by (simp add: Connect_def initial_fields Dial_initial_ok dialed_fields
        CreateSession_dialed_ok ActivateSession_created_ok)

lemma connected_close_fails:
  "Connect server_close_fails (initial endpoint) = Return None connected_state"
  by (simp add: Connect_def initial_fields Dial_initial_close_fails dialed_fields
        CreateSession_dialed_close_fails ActivateSession_created_close_fails)

lemma connected_eq:
  "connected server_ok = connected_state" "connected server_close_fails = connected_state"
  by (simp_all add: connected_def connected_ok connected_close_fails)

lemma ActivateSession_replaces:
  assumes h: "session_holder (the_client st) = Stored (Some a)" and ra: "resp a = Some ra"
      and c: "cfg s = Some scfg" and r: "resp s = Some r"
      and ch: "sechan (the_client st) = Some ch"
      and ans: "sechan_answer e
             (trace st @ [EvSend (ActivateSession_request s scfg) (AuthenticationToken r)])
           = Reply ActivateSessionResponse"
  shows "ActivateSession e (Some s) st =
     (case closeSession_error (sechan_answer e
             (trace st @ [EvSend (ActivateSession_request s scfg) (AuthenticationToken r),
                          EvSend (CloseSessionRequest True) (AuthenticationToken ra)])) of
        None \<Rightarrow>
          Return None
            (st\<lparr>the_client := (the_client st)\<lparr>session_holder := Stored (Some s)\<rparr>,
                trace := trace st @
                  [EvSend (ActivateSession_request s scfg) (AuthenticationToken r),
                   EvSend (CloseSessionRequest True) (AuthenticationToken ra)]\<rparr>)
      | Some err \<Rightarrow>
          Return (Some err)
            (st\<lparr>trace := trace st @
                  [EvSend (ActivateSession_request s scfg) (AuthenticationToken r),
                   EvSend (CloseSessionRequest True) (AuthenticationToken ra),
                   EvSend (CloseSessionRequest True) (AuthenticationToken ra)]\<rparr>))"
proof -
  let ?st1 = "sending (ActivateSession_request s scfg) (AuthenticationToken r) st"
  let ?st2 = "sending (CloseSessionRequest True) (AuthenticationToken ra) ?st1"
  have h1: "session_holder (the_client ?st1) = Stored (Some a)"
    and ch1: "sechan (the_client ?st1) = Some ch"
    using h ch by simp_all
  have h2: "session_holder (the_client ?st2) = Stored (Some a)"
    and ch2: "sechan (the_client ?st2) = Some ch"
    using h ch by simp_all
  have tok: "auth_token_of (Some a) = AuthenticationToken ra"
    using ra by (simp add: auth_token_of_def)
  have second: "closeSession e (Some s) ?st2 =
     Return (closeSession_error (sechan_answer e
               (trace ?st2 @ [EvSend (CloseSessionRequest True) (AuthenticationToken ra)])))
       (sending (CloseSessionRequest True) (AuthenticationToken ra) ?st2)"
    using closeSession_eq [where s' = s and e = e, OF h2 _ ch2] ra tok by simp
  have act: "ActivateSession e (Some s) st =
     (case ActivateSession_handler e s ActivateSessionResponse ((), ?st1) of
        Panic p ls \<Rightarrow> Panic p (snd ls)
      | Return err ls \<Rightarrow> Return err (snd ls))"
    using ans by (simp add: ActivateSession_sends [OF c r ch])
  have first: "CloseSession e ?st1 =
     (case closeSession_error (sechan_answer e
             (trace st @ [EvSend (ActivateSession_request s scfg) (AuthenticationToken r),
                          EvSend (CloseSessionRequest True) (AuthenticationToken ra)])) of
        Some err \<Rightarrow> Return (Some err) ?st2
      | None \<Rightarrow>
          Return None (?st2\<lparr>the_client := (the_client st)\<lparr>session_holder := Stored None\<rparr>\<rparr>))"
    using CloseSession_connected [OF h1 ra ch1, where e = e] by (simp split: option.split)
  have st2: "?st2 = st\<lparr>trace := trace st @
                  [EvSend (ActivateSession_request s scfg) (AuthenticationToken r),
                   EvSend (CloseSessionRequest True) (AuthenticationToken ra)]\<rparr>"
    by (simp add: sending_def)
  have st3: "sending (CloseSessionRequest True) (AuthenticationToken ra) ?st2 =
     st\<lparr>trace := trace st @
                  [EvSend (ActivateSession_request s scfg) (AuthenticationToken r),
                   EvSend (CloseSessionRequest True) (AuthenticationToken ra),
                   EvSend (CloseSessionRequest True) (AuthenticationToken ra)]\<rparr>"
    by (simp add: sending_def)
  show ?thesis
  proof (cases "closeSession_error (sechan_answer e
             (trace st @ [EvSend (ActivateSession_request s scfg) (AuthenticationToken r),
                          EvSend (CloseSessionRequest True) (AuthenticationToken ra)]))")
    case None
    have "ActivateSession_handler e s ActivateSessionResponse ((), ?st1) =
      Return None ((), ?st2\<lparr>the_client := (the_client st)\<lparr>session_holder := Stored (Some s)\<rparr>\<rparr>)"
      by (simp add: ActivateSession_handler_ok first None)
    then show ?thesis
      by (simp only: act None st2) simp
  next
    case (Some err)
    have "ActivateSession_handler e s ActivateSessionResponse ((), ?st1) =
      Return (Some err) ((), sending (CloseSessionRequest True) (AuthenticationToken ra) ?st2)"
      by (simp add: ActivateSession_handler_ok first Some second)
    then show ?thesis
      by (simp only: act Some st3) simp
  qed
qed

lemma connected_state_fields:
  "sechan (the_client connected_state) =
     Some (SecureChannel endpoint 1 (DefaultClientConfig server_ok))"
  "session_holder (the_client connected_state) = Stored (Some session_A)"
  "trace connected_state = trace_connected"
  "length (trace connected_state) = 6"
  "returned connected_state = [session_A]"
  by (simp_all add: connected_state_def dialed_fields trace_connected_def)

lemma length_trace_connected: "length trace_connected = 6"
  by (simp add: trace_connected_def)

lemma session_B_fields:
  "cfg session_B = Some (DefaultSessionConfig server_ok)"
  "resp session_B = Some \<lparr>SessionID = Some (NumericNodeID 1 8), AuthenticationToken = token_B,
                           ServerNonce = []\<rparr>"
  by (simp_all add: session_B_def new_Session_def)

lemma two_sessions_eq:
  "CreateSession server_close_fails None connected_state =
     Return (Some session_B, None)
       (connected_state\<lparr>trace := trace_connected @
          [EvRandRead 32,
           EvSend (CreateSession_request server_ok None connected_state (replicate 32 7)) None],
          returned := [session_A, session_B]\<rparr>)"
proof -
  have r: "rand_Read server_close_fails (trace connected_state @ [EvRandRead 32])
             = Inr (replicate 32 7)"
    by (simp add: server_close_fails_fields) (simp add: server_ok_def)
  have a: "sechan_answer server_close_fails (trace connected_state @
              [EvRandRead 32,
               EvSend (CreateSession_request server_close_fails None connected_state
                         (replicate 32 7)) None])
           = Reply (CreateSessionResponse
               \<lparr>SessionID = Some (NumericNodeID 1 8), AuthenticationToken = token_B,
                ServerNonce = []\<rparr>)"
    using answer_close_fails_simps(1) [where tr = "trace connected_state @ [EvRandRead 32]"]
    by (simp add: server_close_fails_fields connected_state_fields token_B_def
          length_trace_connected)
  show ?thesis
    by (simp add: CreateSession_ok [OF connected_state_fields(1) r a] session_B_def
          connected_state_fields server_close_fails_fields CreateSession_request_env)
qed

lemma sent_two_sessions:
  "sent (trace two_sessions) =
     [(CreateSession_request server_ok None dialed (replicate 32 7), None),
      (ActivateSession_request session_A (DefaultSessionConfig server_ok), token_A),
      (CreateSession_request server_ok None connected_state (replicate 32 7), None)]"
  by (simp add: two_sessions_def connected_eq two_sessions_eq trace_connected_def)

lemma no_close_for_B:
  "(CloseSessionRequest True, token_B) \<notin>
     set (sent (trace two_sessions @
          [EvSend (ActivateSession_request session_B (DefaultSessionConfig server_ok)) token_B,
           EvSend (CloseSessionRequest True) token_A,
           EvSend (CloseSessionRequest True) token_A]))"
  by (simp add: sent_append sent_two_sessions CreateSession_request_def
        ActivateSession_request_def token_A_def token_B_def)

text \<open>
  C1. \<open>session_A\<close> is active, \<open>session_B\<close> is activated, the server accepts the
  activation and refuses to close a session. \<open>ActivateSession\<close> returns the error of the
  failed close and \<open>session_A\<close> stays the active session, as the claim says. But the
  request meant to close the new session is sent by \<open>closeSession(s)\<close> through \<open>c.Send\<close>,
  which attaches the token of the active session: both \<open>CloseSessionRequest\<close>s carry the
  token of \<open>session_A\<close>, none carries the token of \<open>session_B\<close>, so the new session
  is not closed on the wire: no message of the whole run is a \<open>CloseSessionRequest\<close> with
  the token of \<open>session_B\<close>.
\<close>

theorem ActivateSession_failed_close_reuses_old_token:
  "ActivateSession server_close_fails (Some session_B) two_sessions =
     Return (Some (ForeignError ''BadSessionClosed''))
       (two_sessions\<lparr>trace := trace two_sessions @
          [EvSend (ActivateSession_request session_B (DefaultSessionConfig server_ok)) token_B,
           EvSend (CloseSessionRequest True) token_A,
           EvSend (CloseSessionRequest True) token_A]\<rparr>) \<and>
   session_holder (the_client two_sessions) = Stored (Some session_A) \<and>
   auth_token_of (Some session_A) = token_A \<and>
   auth_token_of (Some session_B) = token_B \<and>
   token_A \<noteq> token_B \<and>
   (CloseSessionRequest True, token_B) \<notin>
     set (sent (trace (state_of
       (ActivateSession server_close_fails (Some session_B) two_sessions))))"
proof -
  have ts: "two_sessions = connected_state\<lparr>trace := trace_connected @
          [EvRandRead 32,
           EvSend (CreateSession_request server_ok None connected_state (replicate 32 7)) None],
          returned := [session_A, session_B]\<rparr>"
    by (simp add: two_sessions_def connected_eq two_sessions_eq)
  have h: "session_holder (the_client two_sessions) = Stored (Some session_A)"
    and ch: "sechan (the_client two_sessions) =
               Some (SecureChannel endpoint 1 (DefaultClientConfig server_ok))"
    by (simp_all add: ts connected_state_fields)
  have ans: "sechan_answer server_close_fails
             (trace two_sessions @
                [EvSend (ActivateSession_request session_B (DefaultSessionConfig server_ok))
                   (AuthenticationToken \<lparr>SessionID = Some (NumericNodeID 1 8),
                      AuthenticationToken = token_B, ServerNonce = []\<rparr>)])
           = Reply ActivateSessionResponse"
    by (simp add: server_close_fails_fields answer_close_fails_simps)
  have run: "ActivateSession server_close_fails (Some session_B) two_sessions =
     Return (Some (ForeignError ''BadSessionClosed''))
       (two_sessions\<lparr>trace := trace two_sessions @
          [EvSend (ActivateSession_request session_B (DefaultSessionConfig server_ok)) token_B,
           EvSend (CloseSessionRequest True) token_A,
           EvSend (CloseSessionRequest True) token_A]\<rparr>)"
    using answer_close_fails_simps(3)
      [where tr = "trace two_sessions @
         [EvSend (ActivateSession_request session_B (DefaultSessionConfig server_ok)) token_B]"
         and b = True and tok = token_A]
    by (simp add: ActivateSession_replaces [OF h session_A_fields(2) session_B_fields ch ans]
          server_close_fails_fields closeSession_error_def)
  have none: "(CloseSessionRequest True, token_B) \<notin>
     set (sent (trace (state_of
       (ActivateSession server_close_fails (Some session_B) two_sessions))))"
    using no_close_for_B by (simp add: run)
  show ?thesis
    using run h none
    by (simp add: auth_token_of_def session_A_fields session_B_fields token_A_def token_B_def)
qed

lemma wf_connected_state: "wf connected_state"
  by (simp add: wf_def connected_state_def dialed_eq session_A_fields)

lemma CloseSession_connected_ok:
  "CloseSession server_ok connected_state =
     Return None
       ((sending (CloseSessionRequest True) token_A connected_state)
          \<lparr>the_client := (the_client connected_state)\<lparr>session_holder := Stored None\<rparr>\<rparr>)"
  using answer_ok_simps(3) [where tr = trace_connected and b = True and tok = token_A]
  by (simp add: CloseSession_connected
        [OF connected_state_fields(2) session_A_fields(2) connected_state_fields(1)]
        closeSession_error_def connected_state_fields)
     (simp add: server_ok_def)

lemma CloseSession_connected_close_fails:
  "CloseSession server_close_fails connected_state =
     Return (Some (ForeignError ''BadSessionClosed''))
       (sending (CloseSessionRequest True) token_A connected_state)"
  using answer_close_fails_simps(3) [where tr = trace_connected and b = True and tok = token_A]
  by (simp add: CloseSession_connected
        [OF connected_state_fields(2) session_A_fields(2) connected_state_fields(1)]
        closeSession_error_def connected_state_fields server_close_fails_fields)

theorem CloseSession_clears_only_on_success_witness:
  "session_holder (the_client (connected server_ok)) = Stored (Some session_A) \<and>
   CloseSession server_ok (connected server_ok) =
     Return None
       ((sending (CloseSessionRequest True) token_A connected_state)
          \<lparr>the_client := (the_client connected_state)\<lparr>session_holder := Stored None\<rparr>\<rparr>) \<and>
   session_holder (the_client (state_of (CloseSession server_ok (connected server_ok))))
     = Stored None \<and>
   CloseSession server_close_fails (connected server_close_fails) =
     Return (Some (ForeignError ''BadSessionClosed''))
       (sending (CloseSessionRequest True) token_A connected_state) \<and>
   session_holder (the_client (state_of
       (CloseSession server_close_fails (connected server_close_fails))))
     = Stored (Some session_A)"
proof -
  have h: "session_holder (the_client connected_state) = Stored (Some session_A)"
    by (rule connected_state_fields(2))
  have ok: "the_client (state_of (CloseSession server_ok connected_state)) =
              (the_client connected_state)\<lparr>session_holder := Stored None\<rparr>"
    using CloseSession_clears_only_on_success [OF h, where e = server_ok]
    by (simp add: CloseSession_connected_ok)
  have fails: "the_client (state_of (CloseSession server_close_fails connected_state)) =
              the_client connected_state"
    using CloseSession_clears_only_on_success [OF h, where e = server_close_fails]
    by (simp add: CloseSession_connected_close_fails)
  show ?thesis
    using h ok fails
    by (simp add: connected_eq CloseSession_connected_ok CloseSession_connected_close_fails)
qed

theorem Close_swallows_session_error_witness:
  "wf (connected server_close_fails) \<and>
   sechan (the_client (connected server_close_fails)) =
     Some (SecureChannel endpoint 1 (DefaultClientConfig server_ok)) \<and>
   CloseSession server_close_fails (connected server_close_fails) =
     Return (Some (ForeignError ''BadSessionClosed''))
       (sending (CloseSessionRequest True) token_A connected_state) \<and>
   Close server_close_fails (connected server_close_fails) =
     Return None
       (connected_state\<lparr>trace := trace_connected @
          [EvSend (CloseSessionRequest True) token_A, EvChannelClose]\<rparr>)"
proof -
  have cl: "sechan_Close server_close_fails = (\<lambda>tr. None)"
    by (simp add: server_close_fails_fields) (simp add: server_ok_def)
  obtain r st1 where
    c: "CloseSession server_close_fails connected_state = Return r st1" and
    k: "Close server_close_fails connected_state =
          Return (sechan_Close server_close_fails (trace st1 @ [EvChannelClose]))
            (st1\<lparr>trace := trace st1 @ [EvChannelClose]\<rparr>)"
    using Close_swallows_session_error
      [OF wf_connected_state connected_state_fields(1), where e = server_close_fails]
    by blast
  have st1: "st1 = sending (CloseSessionRequest True) token_A connected_state"
    using c by (simp add: CloseSession_connected_close_fails)
  show ?thesis
    using k
    by (simp add: connected_eq wf_connected_state connected_state_fields
          CloseSession_connected_close_fails st1 cl sending_def)
qed

subsection \<open>\<open>Send\<close>, \<open>GetEndpoints\<close> and the request of \<open>CreateSession\<close>\<close>

lemma GetEndpoints_handler_eq:
  "GetEndpoints_handler (GetEndpointsResponse eps) (l, st) = Return None (Some eps, st)"
  by (simp add: GetEndpoints_handler_def)

text \<open>
  C6. On a client with a secure channel, \<open>Send\<close> is the channel's \<open>Send\<close> with the same
  request and handler and with the token of the active session, or with the nil token
  when no session is active. \<open>GetEndpoints\<close> on a channel with no active session sends
  its request with the nil token and returns the endpoints the server answers. Every state
  of a run from a new client is well formed (\<open>wf_run\<close>, \<open>wf_run_with\<close> below).
\<close>

theorem Send_attaches_active_token:
  assumes "wf st" and "sechan (the_client st) = Some ch"
  shows "session_holder (the_client st) \<noteq> NothingStored \<and>
         (session_holder (the_client st) = Stored None \<longrightarrow>
            Send e req h (l, st) = sechan_Send e (Some ch) req None h (l, st)) \<and>
         (\<forall>s. session_holder (the_client st) = Stored (Some s) \<longrightarrow>
            (\<exists>r. resp s = Some r \<and>
               Send e req h (l, st) =
                 sechan_Send e (Some ch) req (AuthenticationToken r) h (l, st))) \<and>
         (\<forall>eps. session_holder (the_client st) = Stored None \<longrightarrow>
            sechan_answer e
              (trace st @ [EvSend (GetEndpointsRequest (EndpointURL (the_client st))) None])
              = Reply (GetEndpointsResponse eps) \<longrightarrow>
            GetEndpoints e st =
              Return (Some eps, None)
                (sending (GetEndpointsRequest (EndpointURL (the_client st))) None st))"
proof -
  obtain p where p: "session_holder (the_client st) = Stored p"
    and rs: "\<forall>s. p = Some s \<longrightarrow> resp s \<noteq> None"
    using wf_holder [OF assms] by blast
  have snd: "\<And>req' h' l'. Send e req' h' (l', st) =
               sechan_Send e (Some ch) req' (auth_token_of p) h' (l', st)"
    using Send_stored [OF p] rs assms(2) by simp
  have none: "p = None \<Longrightarrow> auth_token_of p = None"
    by (simp add: auth_token_of_def)
  have some: "\<And>s. p = Some s \<Longrightarrow> \<exists>r. resp s = Some r \<and> auth_token_of p = AuthenticationToken r"
    using rs by (auto simp add: auth_token_of_def)
  have ge: "\<And>eps. p = None \<Longrightarrow>
            sechan_answer e
              (trace st @ [EvSend (GetEndpointsRequest (EndpointURL (the_client st))) None])
              = Reply (GetEndpointsResponse eps) \<Longrightarrow>
            GetEndpoints e st =
              Return (Some eps, None)
                (sending (GetEndpointsRequest (EndpointURL (the_client st))) None st)"
    by (simp add: GetEndpoints_def snd auth_token_of_def sechan_Send_Some
          GetEndpoints_handler_eq)
  show ?thesis
    using p snd none some ge by auto
qed



lemma wf_dialed: "wf dialed"
  by (simp add: wf_def dialed_eq)

theorem Send_attaches_active_token_witness:
  "wf dialed \<and> wf connected_state \<and>
   sechan (the_client dialed) =
     Some (SecureChannel endpoint 1 (DefaultClientConfig server_ok)) \<and>
   session_holder (the_client dialed) = Stored None \<and>
   session_holder (the_client connected_state) = Stored (Some session_A) \<and>
   GetEndpoints server_ok dialed =
     Return (Some [endpoint], None) (sending (GetEndpointsRequest endpoint) None dialed) \<and>
   Send server_ok (CloseSessionRequest True) closeSession_handler ((), dialed) =
     sechan_Send server_ok
       (Some (SecureChannel endpoint 1 (DefaultClientConfig server_ok)))
       (CloseSessionRequest True) None closeSession_handler ((), dialed) \<and>
   Send server_ok (CloseSessionRequest True) closeSession_handler ((), connected_state) =
     sechan_Send server_ok
       (Some (SecureChannel endpoint 1 (DefaultClientConfig server_ok)))
       (CloseSessionRequest True) token_A closeSession_handler ((), connected_state)"
proof -
  note d = Send_attaches_active_token [OF wf_dialed dialed_fields(1),
      where e = server_ok and req = "CloseSessionRequest True"
        and h = closeSession_handler and l = "()"]
  note c = Send_attaches_active_token [OF wf_connected_state connected_state_fields(1),
      where e = server_ok and req = "CloseSessionRequest True"
        and h = closeSession_handler and l = "()"]
  have a: "sechan_answer server_ok
              (trace dialed @ [EvSend (GetEndpointsRequest (EndpointURL (the_client dialed))) None])
           = Reply (GetEndpointsResponse [endpoint])"
    by (simp add: server_ok_def answer_ok_simps dialed_fields)
  have ge: "GetEndpoints server_ok dialed =
     Return (Some [endpoint], None) (sending (GetEndpointsRequest endpoint) None dialed)"
    using d a by (simp add: dialed_fields)
  have s1: "Send server_ok (CloseSessionRequest True) closeSession_handler ((), dialed) =
     sechan_Send server_ok
       (Some (SecureChannel endpoint 1 (DefaultClientConfig server_ok)))
       (CloseSessionRequest True) None closeSession_handler ((), dialed)"
    using d by (simp add: dialed_fields)
  have s2: "Send server_ok (CloseSessionRequest True) closeSession_handler ((), connected_state) =
     sechan_Send server_ok
       (Some (SecureChannel endpoint 1 (DefaultClientConfig server_ok)))
       (CloseSessionRequest True) token_A closeSession_handler ((), connected_state)"
    using c by (simp add: connected_state_fields session_A_fields)
  show ?thesis
    using ge s1 s2
    by (simp add: wf_dialed wf_connected_state dialed_fields connected_state_fields)
qed


subsection \<open>Invariants of the runs\<close>

lemma inv_same:
  "the_client st' = the_client st \<Longrightarrow> set (returned st) \<subseteq> set (returned st') \<Longrightarrow>
   A \<subseteq> B \<Longrightarrow> inv b A st \<Longrightarrow> inv b B st'"
  by (auto simp add: inv_def wf_def)

lemma inv_cleared:
  "the_client st' = (the_client st)\<lparr>session_holder := Stored None\<rparr> \<Longrightarrow>
   session_holder (the_client st) \<noteq> NothingStored \<Longrightarrow> inv b A st \<Longrightarrow> inv b B st'"
  by (auto simp add: inv_def wf_def Let_def)

lemma inv_installed:
  "the_client st' = (the_client st)\<lparr>session_holder := Stored (Some s)\<rparr> \<Longrightarrow>
   session_holder (the_client st) \<noteq> NothingStored \<Longrightarrow> resp s \<noteq> None \<Longrightarrow>
   s \<in> B \<or> s \<in> set (returned st') \<Longrightarrow> inv b A st \<Longrightarrow> inv b B st'"
  by (auto simp add: inv_def wf_def Let_def)

lemma Dial_holder:
  "session_holder (the_client (state_of (Dial e ccfg st))) =
     (if once (the_client st) then session_holder (the_client st) else Stored None)"
  by (simp add: Dial_def once_Do_eq Let_def split: option.split sum.split)

lemma Dial_once: "once (the_client (state_of (Dial e ccfg st)))"
  by (simp add: Dial_def once_Do_eq Let_def split: option.split sum.split)

lemma Dial_returned: "returned (state_of (Dial e ccfg st)) = returned st"
  by (simp add: Dial_def once_Do_eq Let_def split: option.split sum.split)

lemma inv_Dial: "inv b A st \<Longrightarrow> inv True A (state_of (Dial e ccfg st))"
  using Dial_holder [of e ccfg st] Dial_once [of e ccfg st] Dial_returned [of e ccfg st]
  by (auto simp add: inv_def wf_def Let_def split: if_splits atomic_Value.splits option.splits)

lemma inv_weaken: "inv True A st \<Longrightarrow> inv b A st"
  by (simp add: inv_def)

lemma inv_CloseSession: "inv b A st \<Longrightarrow> inv b A (state_of (CloseSession e st))"
proof -
  assume i: "inv b A st"
  show ?thesis
  proof (cases "CloseSession e st")
    case (Panic q st')
    then show ?thesis
      using CloseSession_summary [where e = e and st = st] i
      by (auto intro: inv_same [where st = st])
  next
    case (Return r st')
    show ?thesis
    proof (cases r)
      case None
      then show ?thesis
        using Return CloseSession_summary [where e = e and st = st] i
        by (auto intro: inv_cleared [where st = st])
    next
      case (Some err)
      then show ?thesis
        using Return CloseSession_summary [where e = e and st = st] i
        by (auto intro: inv_same [where st = st])
    qed
  qed
qed

lemma inv_ActivateSession:
  assumes "inv b A st" and "A \<subseteq> B" and "\<And>s. sp = Some s \<Longrightarrow> s \<in> B \<or> s \<in> set (returned st)"
  shows "inv b B (state_of (ActivateSession e sp st))"
proof (cases "ActivateSession e sp st")
  case (Panic q st')
  then show ?thesis
    using ActivateSession_summary [where e = e and sp = sp and st = st] assms(1,2)
    by (auto intro: inv_same [where st = st])
next
  case (Return r st')
  show ?thesis
  proof (cases r)
    case None
    then obtain s where s: "sp = Some s" "resp s \<noteq> None"
      and h: "session_holder (the_client st) \<noteq> NothingStored"
      and c: "the_client st' = (the_client st)\<lparr>session_holder := Stored (Some s)\<rparr>"
      and r: "returned st' = returned st"
      using Return ActivateSession_summary [where e = e and sp = sp and st = st] by auto
    have "s \<in> B \<or> s \<in> set (returned st')" using assms(3) s r by simp
    then have "inv b B st'"
      using inv_installed [OF c h s(2) _ assms(1)] by blast
    then show ?thesis using Return by simp
  next
    case (Some err)
    then show ?thesis
      using Return ActivateSession_summary [where e = e and sp = sp and st = st] assms(1,2)
      by (auto intro: inv_same [where st = st])
  qed
qed

lemma CreateSession_handler_returned:
  "returned (snd (state_of (CreateSession_handler scfg v (l, st)))) = returned st"
  by (cases v) (simp_all add: CreateSession_handler_def)

lemma CreateSession_returned:
  "(case CreateSession e scfg st of
      Return res st' \<Rightarrow>
        returned st' = returned st @ (case fst res of None \<Rightarrow> [] | Some s \<Rightarrow> [s])
    | Panic q st' \<Rightarrow> returned st' = returned st)"
proof (cases "sechan (the_client st)")
  case None
  then show ?thesis by (simp add: CreateSession_no_channel)
next
  case (Some ch)
  show ?thesis
  proof (cases "rand_Read e (trace st @ [EvRandRead 32])")
    case (Inl err)
    then show ?thesis using Some by (simp add: CreateSession_no_nonce)
  next
    case (Inr bs)
    define out where "out = sechan_Send e (Some ch) (CreateSession_request e scfg st bs) None
             (CreateSession_handler (case scfg of None \<Rightarrow> DefaultSessionConfig e | Some g \<Rightarrow> g))
             (None, st\<lparr>trace := trace st @ [EvRandRead 32]\<rparr>)"
    have fr: "returned (snd (state_of out)) = returned st"
      unfolding out_def
      by (subst sechan_Send_frame) (simp_all add: CreateSession_handler_returned)
    have eq: "CreateSession e scfg st =
       (case out of Panic p ls \<Rightarrow> Panic p (snd ls)
        | Return err ls \<Rightarrow> Return (fst ls, err) (note_returned (fst ls) (snd ls)))"
      unfolding out_def using Some Inr by (rule CreateSession_sends)
    have nr: "\<And>p s. returned (note_returned p s) =
                 returned s @ (case p of None \<Rightarrow> [] | Some x \<Rightarrow> [x])"
      subgoal for p s by (cases p) simp_all
      done
    show ?thesis using fr by (cases out) (simp_all add: eq nr)
  qed
qed

lemma inv_CreateSession: "inv b A st \<Longrightarrow> inv b A (state_of (CreateSession e scfg st))"
proof -
  assume i: "inv b A st"
  have "set (returned st) \<subseteq> set (returned (state_of (CreateSession e scfg st)))"
    using CreateSession_returned [where e = e and scfg = scfg and st = st]
    by (cases "CreateSession e scfg st") auto
  then show ?thesis
    using inv_same [OF CreateSession_client _ _ i] by blast
qed

lemma Close_frame:
  "the_client (state_of (Close e st)) = the_client (state_of (CloseSession e st)) \<and>
   returned (state_of (Close e st)) = returned (state_of (CloseSession e st))"
  by (cases "CloseSession e st") (simp_all add: Close_def Let_def split: option.split)

lemma inv_Close: "inv b A st \<Longrightarrow> inv b A (state_of (Close e st))"
  using inv_same [where st = "state_of (CloseSession e st)" and st' = "state_of (Close e st)"
                    and A = A and B = A and b = b]
        inv_CloseSession [where e = e and st = st and A = A and b = b] Close_frame [of e st]
  by simp

lemma Connect_chain:
  assumes early: "sechan (the_client st) \<noteq> None \<Longrightarrow> Q st"
      and dial: "sechan (the_client st) = None \<Longrightarrow>
                   Q (state_of (Dial e (Config (the_client st)) st))"
      and cs: "\<And>s g. Q s \<Longrightarrow> Q (state_of (CreateSession e g s))"
      and act: "\<And>s g sp err s'. Q s \<Longrightarrow> CreateSession e g s = Return (sp, err) s' \<Longrightarrow>
                   Q (state_of (ActivateSession e sp s'))"
      and cl: "\<And>s. Q s \<Longrightarrow> Q (state_of (Close e s))"
  shows "Q (state_of (Connect e st))"
proof (cases "sechan (the_client st)")
  case (Some ch)
  then show ?thesis using early by (simp add: Connect_def)
next
  case None
  define d where "d = Dial e (Config (the_client st)) st"
  have i1: "Q (state_of d)"
    unfolding d_def using dial None by simp
  show ?thesis
  proof (cases d)
    case (Panic q s1)
    then show ?thesis using i1 None by (simp add: Connect_def d_def [symmetric])
  next
    case d: (Return r1 s1)
    show ?thesis
    proof (cases r1)
      case (Some err)
      then show ?thesis using i1 None d by (simp add: Connect_def d_def [symmetric])
    next
      case r1: None
      define c where "c = CreateSession e (SessionConfig (the_client s1)) s1"
      have q1: "Q s1" using i1 d by simp
      have i2: "Q (state_of c)"
        unfolding c_def using q1 by (rule cs)
      show ?thesis
      proof (cases c)
        case (Panic q s2)
        then show ?thesis
          using i2 None d r1 by (simp add: Connect_def d_def [symmetric] c_def [symmetric])
      next
        case c: (Return res s2)
        obtain sp r2 where res: "res = (sp, r2)" by (cases res)
        show ?thesis
        proof (cases r2)
          case (Some err)
          have "Q (state_of (Close e s2))" using i2 c by (simp add: cl)
          then show ?thesis
            using None d r1 c res Some
            by (cases "Close e s2")
               (simp_all add: Connect_def d_def [symmetric] c_def [symmetric])
        next
          case r2: None
          define a where "a = ActivateSession e sp s2"
          have "CreateSession e (SessionConfig (the_client s1)) s1 = Return (sp, r2) s2"
            using c res by (simp add: c_def)
          then have i3: "Q (state_of a)"
            unfolding a_def using q1 by (rule act [rotated])
          show ?thesis
          proof (cases a)
            case (Panic q s3)
            then show ?thesis
              using i3 None d r1 c res r2
              by (simp add: Connect_def d_def [symmetric] c_def [symmetric] a_def [symmetric])
          next
            case a: (Return r3 s3)
            show ?thesis
            proof (cases r3)
              case None3: None
              then show ?thesis
                using i3 None d r1 c res r2 a
                by (simp add: Connect_def d_def [symmetric] c_def [symmetric]
                      a_def [symmetric])
            next
              case (Some err)
              have "Q (state_of (Close e s3))" using i3 a by (simp add: cl)
              then show ?thesis
                using None d r1 c res r2 a Some
                by (cases "Close e s3")
                   (simp_all add: Connect_def d_def [symmetric] c_def [symmetric]
                      a_def [symmetric])
            qed
          qed
        qed
      qed
    qed
  qed
qed

lemma inv_once: "inv b A st \<Longrightarrow> sechan (the_client st) \<noteq> None \<Longrightarrow> inv True A st"
  by (auto simp add: inv_def wf_def Let_def)

lemma inv_Connect_once: "inv b A st \<Longrightarrow> inv True A (state_of (Connect e st))"
proof (rule Connect_chain)
  assume i: "inv b A st"
  show "sechan (the_client st) \<noteq> None \<Longrightarrow> inv True A st"
    using i by (rule inv_once)
  show "sechan (the_client st) = None \<Longrightarrow>
          inv True A (state_of (Dial e (Config (the_client st)) st))"
    using i by (simp add: inv_Dial)
  show "\<And>s g. inv True A s \<Longrightarrow> inv True A (state_of (CreateSession e g s))"
    by (rule inv_CreateSession)
  show "\<And>s. inv True A s \<Longrightarrow> inv True A (state_of (Close e s))"
    by (rule inv_Close)
  show "\<And>s g sp err s'. inv True A s \<Longrightarrow> CreateSession e g s = Return (sp, err) s' \<Longrightarrow>
          inv True A (state_of (ActivateSession e sp s'))"
  proof -
    fix s g sp err s'
    assume q: "inv True A s" and c: "CreateSession e g s = Return (sp, err) s'"
    have q': "inv True A s'"
      using inv_CreateSession [OF q, where e = e and scfg = g] c by simp
    have "\<And>x. sp = Some x \<Longrightarrow> x \<in> set (returned s')"
      using CreateSession_returned [where e = e and scfg = g and st = s] c by simp
    then show "inv True A (state_of (ActivateSession e sp s'))"
      using q' by (intro inv_ActivateSession [where A = A]) auto
  qed
qed

lemma inv_Connect: "inv b A st \<Longrightarrow> inv b A (state_of (Connect e st))"
  using inv_Connect_once by (rule inv_weaken)

lemma Send_plain_state:
  "the_client (snd (state_of (Send e req (plain_handler h) (l, st)))) = the_client st"
  "returned (snd (state_of (Send e req (plain_handler h) (l, st)))) = returned st"
  by (rule Send_frame; simp add: plain_handler_def)+

lemma GetEndpoints_handler_state:
  "snd (state_of (GetEndpoints_handler v (l, st))) = st"
  by (cases v) (simp_all add: GetEndpoints_handler_def)

lemma GetEndpoints_state:
  "the_client (state_of (GetEndpoints e st)) = the_client st"
  "returned (state_of (GetEndpoints e st)) = returned st"
proof -
  define out where
    "out = Send e (GetEndpointsRequest (EndpointURL (the_client st))) GetEndpoints_handler
             (None, st)"
  have c: "the_client (snd (state_of out)) = the_client st"
    unfolding out_def by (rule Send_frame) (simp_all add: GetEndpoints_handler_state)
  have r: "returned (snd (state_of out)) = returned st"
    unfolding out_def by (rule Send_frame) (simp_all add: GetEndpoints_handler_state)
  have eq: "state_of (GetEndpoints e st) = snd (state_of out)"
    by (cases out) (simp_all add: GetEndpoints_def out_def [symmetric])
  show "the_client (state_of (GetEndpoints e st)) = the_client st"
    and "returned (state_of (GetEndpoints e st)) = returned st"
    using c r eq by simp_all
qed

lemma Session_state: "state_of (Session st) = st"
  by (simp add: Session_eq split: atomic_Value.split)

lemma offered_Cons: "set (offered (x # ops)) = set (offered [x]) \<union> set (offered ops)"
proof (cases x)
  case (OpActivateSession sp)
  then show ?thesis by (cases sp) simp_all
qed simp_all

lemma inv_exec: "inv b A st \<Longrightarrow> inv b (A \<union> set (offered [x])) (exec e x st)"
proof (cases x)
  case OpConnect
  assume "inv b A st"
  then show ?thesis using OpConnect by (simp add: inv_Connect)
next
  case (OpDial ccfg)
  assume "inv b A st"
  then show ?thesis using OpDial inv_weaken [OF inv_Dial] by simp
next
  case OpClose
  assume "inv b A st"
  then show ?thesis using OpClose by (simp add: inv_Close)
next
  case OpSession
  assume "inv b A st"
  then show ?thesis using OpSession by (simp add: Session_state)
next
  case (OpCreateSession scfg)
  assume "inv b A st"
  then show ?thesis using OpCreateSession by (simp add: inv_CreateSession)
next
  case (OpActivateSession sp)
  assume i: "inv b A st"
  have "inv b (A \<union> set (offered [x])) (state_of (ActivateSession e sp st))"
    using OpActivateSession by (intro inv_ActivateSession [OF i]) auto
  then show ?thesis using OpActivateSession by simp
next
  case OpCloseSession
  assume "inv b A st"
  then show ?thesis using OpCloseSession by (simp add: inv_CloseSession)
next
  case OpDetachSession
  assume "inv b A st"
  then show ?thesis using OpDetachSession DetachSession_always_panics [of st] by simp
next
  case (OpSend req h)
  assume i: "inv b A st"
  show ?thesis
    using OpSend i
      inv_same [where st = st and A = A and B = A and b = b
                  and st' = "snd (state_of (Send e req (plain_handler h) ((), st)))"]
    by (simp add: Send_plain_state)
next
  case OpGetEndpoints
  assume i: "inv b A st"
  show ?thesis
    using OpGetEndpoints i
      inv_same [where st = st and A = A and B = A and b = b
                  and st' = "state_of (GetEndpoints e st)"]
    by (simp add: GetEndpoints_state)
qed

lemma inv_run: "inv b A st \<Longrightarrow> inv b (A \<union> set (offered ops)) (run e ops st)"
proof (induction ops arbitrary: A st)
  case Nil
  then show ?case by (simp add: run_def)
next
  case (Cons x ops)
  have "inv b (A \<union> set (offered [x])) (exec e x st)"
    using Cons.prems by (rule inv_exec)
  then have "inv b ((A \<union> set (offered [x])) \<union> set (offered ops)) (run e ops (exec e x st))"
    by (rule Cons.IH)
  moreover have "(A \<union> set (offered [x])) \<union> set (offered ops) = A \<union> set (offered (x # ops))"
    using offered_Cons [of x ops] by auto
  ultimately show ?case by (simp add: run_def)
qed

lemma inv_initial: "inv False {} (initial url)"
  by (simp add: inv_def wf_def initial_def new_Client_def)

lemma wf_run: "wf (run e ops (initial url))"
  using inv_run [OF inv_initial, of ops e url] by (simp add: inv_def)

lemma run_append: "run e (xs @ ys) st = run e ys (run e xs st)"
  by (simp add: run_def)

lemma run_Cons: "run e (x # xs) st = run e xs (exec e x st)"
  by (simp add: run_def)

lemma run_Nil: "run e [] st = st"
  by (simp add: run_def)

lemma offered_append: "set (offered (xs @ ys)) = set (offered xs) \<union> set (offered ys)"
proof (induction xs)
  case Nil
  then show ?case by simp
next
  case (Cons x xs)
  then show ?case
    using offered_Cons [of x "xs @ ys"] offered_Cons [of x xs] by auto
qed

lemma inv_Session:
  assumes "inv True A st"
  shows "\<exists>p. Session st = Return p st \<and>
           (p = None \<or> (\<exists>s. p = Some s \<and> (s \<in> set (returned st) \<or> s \<in> A)))"
proof -
  have "session_holder (the_client st) \<noteq> NothingStored"
    using assms by (auto simp add: inv_def wf_def Let_def)
  then obtain p where p: "session_holder (the_client st) = Stored p"
    by (cases "session_holder (the_client st)") auto
  then have "p = None \<or> (\<exists>s. p = Some s \<and> (s \<in> set (returned st) \<or> s \<in> A))"
    using assms by (cases p) (auto simp add: inv_def)
  then show ?thesis using p by (simp add: Session_eq)
qed

lemma inv_exec_dial:
  assumes "inv b A st" and "calls_Dial x"
  shows "inv True (A \<union> set (offered [x])) (exec e x st)"
proof (cases x)
  case OpConnect
  then show ?thesis using assms(1) by (simp add: inv_Connect_once)
next
  case (OpDial ccfg)
  then show ?thesis using assms(1) by (simp add: inv_Dial)
qed (use assms(2) in simp_all)

lemma dial_free_Cons: "dial_free (x # ops) = (\<not> calls_Dial x \<and> dial_free ops)"
  by (simp add: dial_free_def)

lemma inv_run_dialed:
  "inv b A st \<Longrightarrow> \<not> dial_free ops \<Longrightarrow> inv True (A \<union> set (offered ops)) (run e ops st)"
proof (induction ops arbitrary: A st)
  case Nil
  then show ?case by (simp add: dial_free_def)
next
  case (Cons x ops)
  have u: "(A \<union> set (offered [x])) \<union> set (offered ops) = A \<union> set (offered (x # ops))"
    using offered_Cons [of x ops] by auto
  show ?case
  proof (cases "calls_Dial x")
    case True
    have "inv True (A \<union> set (offered [x])) (exec e x st)"
      using Cons.prems(1) True by (rule inv_exec_dial)
    then have "inv True ((A \<union> set (offered [x])) \<union> set (offered ops))
                 (run e ops (exec e x st))"
      by (rule inv_run)
    then show ?thesis using u by (simp add: run_Cons)
  next
    case False
    then have df: "\<not> dial_free ops" using Cons.prems(2) by (simp add: dial_free_Cons)
    have "inv b (A \<union> set (offered [x])) (exec e x st)"
      using Cons.prems(1) by (rule inv_exec)
    then have "inv True ((A \<union> set (offered [x])) \<union> set (offered ops))
                 (run e ops (exec e x st))"
      using df by (rule Cons.IH)
    then show ?thesis using u by (simp add: run_Cons)
  qed
qed

lemma initial_with_fields:
  "sechan (the_client (initial_with url ccfg scfg)) = None"
  "Config (the_client (initial_with url ccfg scfg)) = ccfg"
  "SessionConfig (the_client (initial_with url ccfg scfg)) = scfg"
  "EndpointURL (the_client (initial_with url ccfg scfg)) = url"
  "session_holder (the_client (initial_with url ccfg scfg)) = NothingStored"
  "once (the_client (initial_with url ccfg scfg)) = False"
  "returned (initial_with url ccfg scfg) = []"
  "trace (initial_with url ccfg scfg) = []"
  by (simp_all add: initial_with_def new_Client_with_def)

lemma initial_with_None: "initial_with url None None = initial url"
  by (simp add: initial_with_def new_Client_with_def initial_def new_Client_def)

lemma inv_initial_with: "inv False {} (initial_with url ccfg scfg)"
  by (simp add: inv_def wf_def initial_with_fields)

lemma wf_run_with: "wf (run e ops (initial_with url ccfg scfg))"
  using inv_run [OF inv_initial_with, of ops e url ccfg scfg] by (simp add: inv_def)

lemma made_same: "returned st' = returned st \<Longrightarrow> made st \<Longrightarrow> made st'"
  by (simp add: made_def)

lemma made_CreateSession: "made st \<Longrightarrow> made (state_of (CreateSession e g st))"
proof -
  assume m: "made st"
  show ?thesis
  proof (cases "CreateSession e g st")
    case (Panic q st')
    then show ?thesis
      using CreateSession_returned [where e = e and scfg = g and st = st] m
      by (simp add: made_def)
  next
    case (Return res st')
    obtain sp err where res: "res = (sp, err)" by (cases res)
    show ?thesis
    proof (cases sp)
      case None
      then show ?thesis
        using CreateSession_returned [where e = e and scfg = g and st = st] m Return res
        by (simp add: made_def)
    next
      case (Some s)
      have "returned_by_CreateSession s"
        unfolding returned_by_CreateSession_def using Return res Some by blast
      then show ?thesis
        using CreateSession_returned [where e = e and scfg = g and st = st] m Return res Some
        by (auto simp add: made_def)
    qed
  qed
qed

lemma ActivateSession_returned:
  "returned (state_of (ActivateSession e sp st)) = returned st"
proof (cases "ActivateSession e sp st")
  case (Panic q st')
  then show ?thesis using ActivateSession_summary [where e = e and sp = sp and st = st] by simp
next
  case (Return r st')
  then show ?thesis
    using ActivateSession_summary [where e = e and sp = sp and st = st] by (cases r) simp_all
qed

lemma CloseSession_returned: "returned (state_of (CloseSession e st)) = returned st"
proof (cases "CloseSession e st")
  case (Panic q st')
  then show ?thesis using CloseSession_summary [where e = e and st = st] by simp
next
  case (Return r st')
  then show ?thesis
    using CloseSession_summary [where e = e and st = st] by (cases r) simp_all
qed

lemma made_Connect: "made st \<Longrightarrow> made (state_of (Connect e st))"
proof (rule Connect_chain)
  assume m: "made st"
  show "sechan (the_client st) \<noteq> None \<Longrightarrow> made st" using m by simp
  show "sechan (the_client st) = None \<Longrightarrow>
          made (state_of (Dial e (Config (the_client st)) st))"
    using m by (simp add: made_def Dial_returned)
  show "\<And>s g. made s \<Longrightarrow> made (state_of (CreateSession e g s))"
    by (rule made_CreateSession)
  show "\<And>s. made s \<Longrightarrow> made (state_of (Close e s))"
    using Close_frame by (simp add: made_def CloseSession_returned)
  show "\<And>s g sp err s'. made s \<Longrightarrow> CreateSession e g s = Return (sp, err) s' \<Longrightarrow>
          made (state_of (ActivateSession e sp s'))"
  proof -
    fix s g sp err s'
    assume q: "made s" and c: "CreateSession e g s = Return (sp, err) s'"
    have "made s'" using made_CreateSession [OF q, where e = e and g = g] c by simp
    then show "made (state_of (ActivateSession e sp s'))"
      by (simp add: made_def ActivateSession_returned)
  qed
qed

lemma made_exec: "made st \<Longrightarrow> made (exec e x st)"
proof (cases x)
  case OpConnect
  assume "made st"
  then show ?thesis using OpConnect by (simp add: made_Connect)
next
  case (OpCreateSession g)
  assume "made st"
  then show ?thesis using OpCreateSession by (simp add: made_CreateSession)
next
  case OpClose
  assume "made st"
  then show ?thesis
    using OpClose Close_frame [of e st] by (simp add: made_def CloseSession_returned)
next
  case OpDetachSession
  assume "made st"
  then show ?thesis using OpDetachSession DetachSession_always_panics [of st] by simp
qed (simp_all add: made_def Dial_returned Session_state ActivateSession_returned
       CloseSession_returned Send_plain_state GetEndpoints_state)

lemma made_run: "made st \<Longrightarrow> made (run e ops st)"
proof (induction ops arbitrary: st)
  case Nil
  then show ?case by (simp add: run_def)
next
  case (Cons x ops)
  then show ?case by (simp add: run_Cons made_exec)
qed

lemma made_initial_with: "made (initial_with url ccfg scfg)"
  by (simp add: made_def initial_with_fields)

lemma CreateSession_result:
  assumes "CreateSession e g st = Return (Some s, err) st'"
  shows "\<exists>r. s = new_Session (case g of None \<Rightarrow> DefaultSessionConfig e | Some c \<Rightarrow> c) r"
proof (cases "sechan (the_client st)")
  case None
  then show ?thesis using assms by (simp add: CreateSession_no_channel)
next
  case (Some ch)
  show ?thesis
  proof (cases "rand_Read e (trace st @ [EvRandRead 32])")
    case (Inl x)
    then show ?thesis using assms Some by (simp add: CreateSession_no_nonce)
  next
    case (Inr bs)
    let ?g = "case g of None \<Rightarrow> DefaultSessionConfig e | Some c \<Rightarrow> c"
    have eq: "CreateSession e g st =
       (case sechan_Send e (Some ch) (CreateSession_request e g st bs) None
               (CreateSession_handler ?g) (None, st\<lparr>trace := trace st @ [EvRandRead 32]\<rparr>) of
          Panic p ls \<Rightarrow> Panic p (snd ls)
        | Return err ls \<Rightarrow> Return (fst ls, err) (note_returned (fst ls) (snd ls)))"
      using Some Inr by (rule CreateSession_sends)
    show ?thesis
    proof (cases "sechan_answer e (trace st @
                    [EvRandRead 32, EvSend (CreateSession_request e g st bs) None])")
      case (SendError x)
      then show ?thesis using assms by (simp add: eq sechan_Send_Some)
    next
      case (Reply v)
      then show ?thesis
        using assms
        by (cases v) (auto simp add: eq sechan_Send_Some CreateSession_handler_def new_Session_def)
    qed
  qed
qed

lemma returned_by_CreateSession_new: "returned_by_CreateSession (new_Session g r)"
proof -
  let ?e = "server_ok\<lparr>sechan_answer := (\<lambda>tr. Reply (CreateSessionResponse r))\<rparr>"
  have "CreateSession ?e (Some g) dialed =
     Return (Some (new_Session g r), None)
       (dialed\<lparr>trace := trace dialed @
              [EvRandRead 32, EvSend (CreateSession_request ?e (Some g) dialed (replicate 32 7)) None],
            returned := returned dialed @ [new_Session g r]\<rparr>)"
    by (subst CreateSession_ok [where bs = "replicate 32 7" and r = r])
       (simp_all add: dialed_fields server_ok_def)
  then show ?thesis unfolding returned_by_CreateSession_def by blast
qed

lemma returned_by_CreateSession_iff:
  "returned_by_CreateSession s = (\<exists>g r. s = new_Session g r)"
proof
  assume "returned_by_CreateSession s"
  then obtain e g st err st' where "CreateSession e g st = Return (Some s, err) st'"
    unfolding returned_by_CreateSession_def by blast
  then show "\<exists>g r. s = new_Session g r" using CreateSession_result by blast
next
  assume "\<exists>g r. s = new_Session g r"
  then show "returned_by_CreateSession s" using returned_by_CreateSession_new by blast
qed

lemma inv_active_resp:
  "inv b A st \<Longrightarrow> session_holder (the_client st) = Stored (Some s) \<Longrightarrow> resp s \<noteq> None"
  by (simp add: inv_def wf_def Let_def)

text \<open>
  C8, as amended. A caller outside the package can hand \<open>ActivateSession\<close> nil, the zero
  \<open>Session{}\<close>, or a session that some \<open>CreateSession\<close> call returned, on this client or on
  another one. After any such sequence of calls that invokes \<open>Dial\<close>, directly or through
  \<open>Connect\<close>, \<open>Session()\<close> returns (it does not panic), and what it returns is nil or a
  session that a \<open>CreateSession\<close> call returned: one in the history of this client, or one
  the caller handed to \<open>ActivateSession\<close>.
\<close>

theorem Session_null_or_from_CreateSession:
  assumes "\<not> dial_free ops"
      and "\<forall>s\<in>set (offered ops). s = zero_Session \<or> returned_by_CreateSession s"
  shows "\<exists>p. Session (run e ops (initial_with url ccfg scfg)) =
                Return p (run e ops (initial_with url ccfg scfg)) \<and>
              (p = None \<or>
               (\<exists>s. p = Some s \<and> returned_by_CreateSession s \<and>
                  (s \<in> set (returned (run e ops (initial_with url ccfg scfg))) \<or>
                   s \<in> set (offered ops))))"
proof -
  let ?st = "run e ops (initial_with url ccfg scfg)"
  have i: "inv True (set (offered ops)) ?st"
    using inv_run_dialed [OF inv_initial_with assms(1), where e = e] by simp
  have m: "made ?st"
    using made_initial_with by (rule made_run)
  obtain p where p: "Session ?st = Return p ?st"
    and c: "p = None \<or> (\<exists>s. p = Some s \<and> (s \<in> set (returned ?st) \<or> s \<in> set (offered ops)))"
    using inv_Session [OF i] by blast
  show ?thesis
  proof (cases p)
    case None
    then show ?thesis using p by simp
  next
    case (Some s)
    then have h: "session_holder (the_client ?st) = Stored (Some s)"
      using p by (simp add: Session_eq split: atomic_Value.splits)
    have r: "resp s \<noteq> None" using i h by (rule inv_active_resp)
    have src: "s \<in> set (returned ?st) \<or> s \<in> set (offered ops)" using c Some by simp
    have "returned_by_CreateSession s"
    proof (cases "s \<in> set (returned ?st)")
      case True
      then show ?thesis using m by (simp add: made_def)
    next
      case False
      then have "s \<in> set (offered ops)" using src by simp
      then have "s = zero_Session \<or> returned_by_CreateSession s" using assms(2) by simp
      then show ?thesis using r by (auto simp add: zero_Session_def)
    qed
    then show ?thesis using p Some src by simp
  qed
qed

lemma ActivateSession_A_on_dialed:
  "ActivateSession server_ok (Some session_A) dialed =
     Return None
       ((sending (ActivateSession_request session_A (DefaultSessionConfig server_ok)) token_A
           dialed)
          \<lparr>the_client := (the_client dialed)\<lparr>session_holder := Stored (Some session_A)\<rparr>\<rparr>)"
proof -
  have a: "sechan_answer server_ok (trace dialed @
             [EvSend (ActivateSession_request session_A (DefaultSessionConfig server_ok))
                (AuthenticationToken \<lparr>SessionID = Some (NumericNodeID 1 5),
                    AuthenticationToken = token_A, ServerNonce = []\<rparr>)])
           = Reply ActivateSessionResponse"
    by (simp add: server_ok_def answer_ok_simps)
  show ?thesis
    by (simp add: ActivateSession_first [OF dialed_fields(2) session_A_fields dialed_fields(1) a])
qed

text \<open>
  C8 as stated fails. \<open>session_A\<close> is returned by \<open>CreateSession\<close> on one client; a
  second client calls \<open>Dial\<close> and \<open>ActivateSession(session_A)\<close>. Then \<open>Session()\<close> of the
  second client returns \<open>session_A\<close>, and \<open>CreateSession\<close> has returned nothing on that
  client.
\<close>

theorem session_of_another_client_becomes_active:
  "CreateSession server_ok None dialed = Return (Some session_A, None) created \<and>
   Session (run server_ok [OpDial None, OpActivateSession (Some session_A)] (initial endpoint)) =
     Return (Some session_A)
       (run server_ok [OpDial None, OpActivateSession (Some session_A)] (initial endpoint)) \<and>
   returned (run server_ok [OpDial None, OpActivateSession (Some session_A)] (initial endpoint))
     = []"
  by (simp add: run_def Dial_initial_ok ActivateSession_A_on_dialed Session_eq
        CreateSession_dialed_ok dialed_fields)

lemma session_A_returned: "returned_by_CreateSession session_A"
  unfolding returned_by_CreateSession_def using CreateSession_dialed_ok by blast

theorem Session_null_or_from_CreateSession_witness:
  "\<not> dial_free [OpDial None, OpActivateSession (Some zero_Session),
                  OpActivateSession (Some session_A)] \<and>
   returned_by_CreateSession session_A \<and>
   Session (run server_ok
              [OpDial None, OpActivateSession (Some zero_Session),
               OpActivateSession (Some session_A)] (initial_with endpoint None None)) =
     Return (Some session_A)
       (run server_ok
              [OpDial None, OpActivateSession (Some zero_Session),
               OpActivateSession (Some session_A)] (initial_with endpoint None None)) \<and>
   returned (run server_ok
              [OpDial None, OpActivateSession (Some zero_Session),
               OpActivateSession (Some session_A)] (initial_with endpoint None None)) = []"
proof -
  let ?ops = "[OpDial None, OpActivateSession (Some zero_Session),
               OpActivateSession (Some session_A)]"
  have df: "\<not> dial_free ?ops" by (simp add: dial_free_def)
  have off: "\<forall>s\<in>set (offered ?ops). s = zero_Session \<or> returned_by_CreateSession s"
    by (simp add: session_A_returned)
  obtain p where p: "Session (run server_ok ?ops (initial_with endpoint None None)) =
                       Return p (run server_ok ?ops (initial_with endpoint None None))"
    using Session_null_or_from_CreateSession [OF df off, where e = server_ok] by blast
  have st: "run server_ok ?ops (initial_with endpoint None None) =
     (sending (ActivateSession_request session_A (DefaultSessionConfig server_ok)) token_A
           dialed)
          \<lparr>the_client := (the_client dialed)\<lparr>session_holder := Stored (Some session_A)\<rparr>\<rparr>"
    by (simp add: run_def initial_with_None Dial_initial_ok ActivateSession_no_cfg
          zero_Session_def ActivateSession_A_on_dialed)
  have "p = Some session_A"
    using p by (simp add: st Session_eq)
  then show ?thesis
    using p df session_A_returned by (simp add: st dialed_fields)
qed








end
